theory Spec2Isabelle
  imports Complex_Main "HOL-Library.AList" "HOL-Library.List_Lexorder" "HOL-Library.Multiset"
begin

section \<open>Python strings\<close>

text \<open>
  A Python \<open>str\<close> is a sequence of Unicode code points; \<open>len\<close>, slicing and \<open>in\<close>
  count code points. The keyword tables of the program hold characters outside Latin-1
  (the euro sign), so a string is a list of code points, and \<open>u\<close> embeds an ASCII literal.
\<close>

type_synonym ustr = "nat list"

definition u :: "string \<Rightarrow> ustr" where
  "u s = map of_char s"

text \<open>\<open>s.startswith(p)\<close>.\<close>

fun startswith :: "ustr \<Rightarrow> ustr \<Rightarrow> bool" where
  "startswith s [] = True"
| "startswith [] (p # ps) = False"
| "startswith (c # cs) (p # ps) = (c = p \<and> startswith cs ps)"

text \<open>\<open>w in s\<close> for two strings: \<open>w\<close> occurs in \<open>s\<close> as a contiguous run.\<close>

fun str_in :: "ustr \<Rightarrow> ustr \<Rightarrow> bool" where
  "str_in w [] = (w = [])"
| "str_in w (c # cs) = (startswith (c # cs) w \<or> str_in w cs)"

text \<open>
  \<open>s.split(sep)\<close> for a separator that is not empty (the program splits on
  three backticks and on the underscore): the pieces between the occurrences of \<open>sep\<close>,
  found from the left. \<open>cur\<close> holds the current piece, reversed.
\<close>

function split_from :: "ustr \<Rightarrow> ustr \<Rightarrow> ustr \<Rightarrow> ustr list" where
  "split_from sep cur [] = [rev cur]"
| "split_from sep cur (c # cs) =
     (if sep \<noteq> [] \<and> startswith (c # cs) sep
      then rev cur # split_from sep [] (drop (length sep) (c # cs))
      else split_from sep (c # cur) cs)"
  by pat_completeness auto
termination
  by (relation "measure (\<lambda>(sep, cur, s). length s)") (auto simp: neq_Nil_conv)

definition split :: "ustr \<Rightarrow> ustr \<Rightarrow> ustr list" where
  "split s sep = split_from sep [] s"

text \<open>
  \<open>s.replace(old, new)\<close> for \<open>old\<close> not empty: every occurrence of \<open>old\<close>, found
  from the left without overlap, becomes \<open>new\<close>.
\<close>

function replace :: "ustr \<Rightarrow> ustr \<Rightarrow> ustr \<Rightarrow> ustr" where
  "replace [] old new = []"
| "replace (c # cs) old new =
     (if old \<noteq> [] \<and> startswith (c # cs) old
      then new @ replace (drop (length old) (c # cs)) old new
      else c # replace cs old new)"
  by pat_completeness auto
termination
  by (relation "measure (\<lambda>(s, old, new). length s)") (auto simp: neq_Nil_conv)

text \<open>
  \<open>s.strip()\<close> removes the white space at both ends; \<open>is_space\<close> lists the code
  points for which \<open>str.isspace\<close> holds.
\<close>

definition is_space :: "nat \<Rightarrow> bool" where
  "is_space c \<longleftrightarrow> (9 \<le> c \<and> c \<le> 13) \<or> (28 \<le> c \<and> c \<le> 32) \<or> c = 133 \<or> c = 160
     \<or> c = 5760 \<or> (8192 \<le> c \<and> c \<le> 8202) \<or> c = 8232 \<or> c = 8233 \<or> c = 8239
     \<or> c = 8287 \<or> c = 12288"

definition strip :: "ustr \<Rightarrow> ustr" where
  "strip s = rev (dropWhile is_space (rev (dropWhile is_space s)))"

section \<open>Python floats\<close>

text \<open>
  A Python \<open>float\<close> is an IEEE double: a finite value, an infinity or a NaN. A finite
  double is given by its exact value, a rational. \<open>fl x\<close> is the double nearest to \<open>x\<close>,
  ties to the even mantissa: what a float literal of the source denotes (\<open>0.6\<close> is
  \<open>fl (6/10)\<close>) and what a product of two floats is rounded to. It is defined for the
  normal range of exponents; the program multiplies small numbers only, and
  \<open>float_of_int\<close> checks the upper end itself.
\<close>

text \<open>\<open>int.bit_length\<close>.\<close>

fun bit_length :: "nat \<Rightarrow> nat" where
  "bit_length n = (if n = 0 then 0 else Suc (bit_length (n div 2)))"

declare bit_length.simps [simp del]

text \<open>The exponent of a positive rational: the largest \<open>e\<close> with \<open>2 ^ e \<le> a\<close>.\<close>

definition ilog2 :: "rat \<Rightarrow> int" where
  "ilog2 a = (if 1 \<le> a then int (bit_length (nat \<lfloor>a\<rfloor>)) - 1
              else - int (bit_length (nat (\<lceil>1 / a\<rceil> - 1))))"

text \<open>Rounding to the nearest integer, a tie to the even one.\<close>

definition half_even :: "rat \<Rightarrow> int" where
  "half_even q =
     (let f = \<lfloor>q\<rfloor>; r = q - of_int f
      in if r < 1/2 then f else if 1/2 < r then f + 1 else if even f then f else f + 1)"

definition fl :: "rat \<Rightarrow> rat" where
  "fl x =
     (if x = 0 then 0
      else (let e = ilog2 \<bar>x\<bar>;
                ulp = power_int 2 (e - 52)
            in sgn x * of_int (half_even (\<bar>x\<bar> / ulp)) * ulp))"

datatype pyfloat =
    Fin rat
  | PInf
  | NInf
  | NaN

text \<open>\<open>a < b\<close> and \<open>a >= b\<close> on floats: every comparison with a NaN is false.\<close>

fun f_lt :: "pyfloat \<Rightarrow> pyfloat \<Rightarrow> bool" where
  "f_lt NaN b = False"
| "f_lt a NaN = False"
| "f_lt (Fin x) (Fin y) = (x < y)"
| "f_lt (Fin x) PInf = True"
| "f_lt (Fin x) NInf = False"
| "f_lt PInf b = False"
| "f_lt NInf NInf = False"
| "f_lt NInf b = True"

fun f_ge :: "pyfloat \<Rightarrow> pyfloat \<Rightarrow> bool" where
  "f_ge NaN b = False"
| "f_ge a NaN = False"
| "f_ge (Fin x) (Fin y) = (y \<le> x)"
| "f_ge (Fin x) PInf = False"
| "f_ge (Fin x) NInf = True"
| "f_ge PInf b = True"
| "f_ge NInf NInf = True"
| "f_ge NInf b = False"

text \<open>\<open>min(a, b)\<close> and \<open>max(a, b)\<close> of Python: the first argument, unless the second
  is smaller (greater).\<close>

definition py_min :: "pyfloat \<Rightarrow> pyfloat \<Rightarrow> pyfloat" where
  "py_min a b = (if f_lt b a then b else a)"

definition py_max :: "pyfloat \<Rightarrow> pyfloat \<Rightarrow> pyfloat" where
  "py_max a b = (if f_lt a b then b else a)"

text \<open>\<open>max(0.0, min(1.0, confidence))\<close>: a finite float, given by its value (the lemma
  \<open>clamp01_exact\<close> below: the last case is never taken).\<close>

definition clamp01 :: "pyfloat \<Rightarrow> rat" where
  "clamp01 c = (case py_max (Fin 0) (py_min (Fin 1) c) of Fin x \<Rightarrow> x | _ \<Rightarrow> 0)"

section \<open>Values decoded from JSON and the library functions used on them\<close>

text \<open>
  What \<open>json.loads\<close> returns: \<open>None\<close>, a bool, an \<open>int\<close> (for a number without
  fraction and exponent, of any size), a \<open>float\<close> (for every other number; the decoder
  also accepts \<open>NaN\<close> and \<open>Infinity\<close>), a string, a list or a dict with string keys. A
  dict is the list of its entries; \<open>map_of\<close> looks a key up.
\<close>

datatype json =
    JNull
  | JBool bool
  | JInt int
  | JFloat pyfloat
  | JStr ustr
  | JArr "json list"
  | JObj "(ustr \<times> json) list"

text \<open>
  The functions of Python's library that the program calls and that are not part of it:
  \<open>json.loads\<close> (\<open>None\<close> when it raises \<open>JSONDecodeError\<close>), \<open>float\<close> on a string
  (\<open>None\<close> when it raises \<open>ValueError\<close>), \<open>str\<close> on a decoded value that is not a string,
  and \<open>str.lower\<close>. Every definition below takes them as the parameter \<open>L\<close>, and every
  theorem holds for all of them.
\<close>

record pylib =
  json_loads :: "ustr \<Rightarrow> json option"
  float_str :: "ustr \<Rightarrow> pyfloat option"
  repr_json :: "json \<Rightarrow> ustr"
  str_lower :: "ustr \<Rightarrow> ustr"

datatype error =
    JSONDecodeError
  | ValueError
  | TypeError
  | OverflowError
  | IndexError
  | AttributeError
  | KeyError
  | FileNotFoundError
  | FileExistsError
  | NotADirectoryError
  | PermissionError
  | RequestException

text \<open>\<open>float(n)\<close> on an \<open>int\<close>: the nearest double, and \<open>OverflowError\<close> when that
  would be \<open>2 ^ 1024\<close> or more.\<close>

definition float_of_int :: "int \<Rightarrow> error + pyfloat" where
  "float_of_int n =
     (if 2 ^ 1024 - 2 ^ 970 \<le> \<bar>n\<bar> then Inl OverflowError else Inr (Fin (fl (of_int n))))"

text \<open>\<open>float(x)\<close> on a decoded value.\<close>

definition py_float :: "pylib \<Rightarrow> json \<Rightarrow> error + pyfloat" where
  "py_float L j =
     (case j of
        JInt n \<Rightarrow> float_of_int n
      | JFloat f \<Rightarrow> Inr f
      | JBool b \<Rightarrow> Inr (Fin (if b then 1 else 0))
      | JStr s \<Rightarrow> (case float_str L s of None \<Rightarrow> Inl ValueError | Some f \<Rightarrow> Inr f)
      | _ \<Rightarrow> Inl TypeError)"

text \<open>A \<open>for\<close> loop whose body may raise: the first exception ends it.\<close>

fun collect :: "('a \<Rightarrow> error + 'b list) \<Rightarrow> 'a list \<Rightarrow> error + 'b list" where
  "collect f [] = Inr []"
| "collect f (x # xs) =
     (case f x of
        Inl e \<Rightarrow> Inl e
      | Inr ys \<Rightarrow> (case collect f xs of Inl e \<Rightarrow> Inl e | Inr zs \<Rightarrow> Inr (ys @ zs)))"

text \<open>\<open>str(x)\<close> on a decoded value.\<close>

definition py_str :: "pylib \<Rightarrow> json \<Rightarrow> ustr" where
  "py_str L j = (case j of JStr s \<Rightarrow> s | _ \<Rightarrow> repr_json L j)"

text \<open>\<open>x in folders\<close> for a decoded value and a list of strings: only a string can be equal
  to a string.\<close>

definition json_in :: "json \<Rightarrow> ustr list \<Rightarrow> bool" where
  "json_in j fs = (case j of JStr s \<Rightarrow> s \<in> set fs | _ \<Rightarrow> False)"

section \<open>Suggestions\<close>

text \<open>
  A suggestion of document\_organizer.py is a dict with the keys \<open>folder\<close>, \<open>reason\<close>
  and \<open>confidence\<close>. Its confidence is a finite float in every suggestion that this
  implementation builds (a literal, a product of small numbers, or a clamped value), so it
  is given by its value. The keys \<open>folder_path\<close> and \<open>is_new\<close>, which the web page
  reads, are absent: \<open>None\<close> and \<open>False\<close>.
\<close>

record suggestion =
  folder :: ustr
  reason :: ustr
  confidence :: rat
  folder_path :: "ustr option"
  is_new :: bool

definition existing :: "ustr \<Rightarrow> ustr \<Rightarrow> rat \<Rightarrow> suggestion" where
  "existing f r c = \<lparr>folder = f, reason = r, confidence = c, folder_path = None, is_new = False\<rparr>"

text \<open>\<open>xs.sort(key=lambda x: x['confidence'], reverse=True)\<close> and
  \<open>sorted(scores.items(), key=lambda x: x[1], reverse=True)\<close>: Python's sort is stable
  also when reversed, so equal keys keep their order.\<close>

definition sort_desc :: "('a \<Rightarrow> rat) \<Rightarrow> 'a list \<Rightarrow> 'a list" where
  "sort_desc key xs = sort_key (\<lambda>x. - key x) xs"

section \<open>document\_organizer.py: the suggestion engine\<close>

subsection \<open>\<open>DocumentProcessor._fallback_suggestions\<close>\<close>

definition keyword_table :: "(ustr \<times> ustr list) list" where
  "keyword_table =
     [(u ''Rechnungen'', [u ''rechnung'', u ''invoice'', u ''betrag'', u ''eur'', [8364], u ''ustid'', u ''mwst'']),
      (u ''Bank'', [u ''iban'', u ''bic'', 252 # u ''berweisung'', u ''konto'', u ''bank'']),
      (u ''Vertraege'', [u ''vertrag'', u ''contract'', u ''vereinbarung'', u ''bedingungen'']),
      (u ''Auto'', [u ''kfz'', u ''auto'', u ''fahrzeug'', u ''versicherung'', u ''werkstatt'']),
      (u ''Arbeit'', [u ''arbeit'', u ''gehalt'', u ''firma'', u ''unternehmen'', u ''job''])]"

text \<open>The dict \<open>scores\<close>, in insertion order: the folders of the table that are target
  folders and have a hit.\<close>

definition keyword_scores :: "(ustr \<times> ustr list) list \<Rightarrow> ustr list \<Rightarrow> ustr \<Rightarrow> (ustr \<times> nat) list" where
  "keyword_scores table target_folders text_lower =
     filter (\<lambda>(f, score). score > 0)
       (map (\<lambda>(f, ws). (f, length (filter (\<lambda>w. str_in w text_lower) ws)))
          (filter (\<lambda>(f, ws). f \<in> set target_folders) table))"

text \<open>The loop \<open>while len(suggestions) < 3\<close> that fills up with \<open>Sonstiges\<close>, then with
  the first folder not yet suggested.\<close>

function fill_fallback :: "ustr list \<Rightarrow> suggestion list \<Rightarrow> suggestion list" where
  "fill_fallback target_folders suggestions =
     (if length suggestions < 3
      then (case filter (\<lambda>f. f \<notin> set (map folder suggestions)) target_folders of
              [] \<Rightarrow> suggestions
            | r # rs \<Rightarrow>
                if u ''Sonstiges'' \<in> set (r # rs)
                then fill_fallback target_folders
                       (suggestions @ [existing (u ''Sonstiges'') (u ''Standard-Fallback'') (fl (1/10))])
                else fill_fallback target_folders
                       (suggestions @ [existing r (u ''Automatische Zuordnung'') (fl (1/10))]))
      else suggestions)"
  by pat_completeness auto
termination
  by (relation "measure (\<lambda>(tf, ss). 3 - length ss)") auto

definition fallback_suggestions :: "pylib \<Rightarrow> ustr list \<Rightarrow> ustr \<Rightarrow> suggestion list" where
  "fallback_suggestions L target_folders text_content =
     (let text_lower = str_lower L text_content;
          scores = keyword_scores keyword_table target_folders text_lower;
          sorted_folders = sort_desc (\<lambda>(f, score). of_nat score) scores;
          suggestions =
            map (\<lambda>(f, score).
                   existing f (u ''Schl'' @ [252] @ u ''sselw'' @ [246] @ u ''rter gefunden'')
                     (min (fl (7/10)) (fl (of_nat score * fl (2/10)))))
              (take 2 sorted_folders)
      in fill_fallback target_folders suggestions)"

subsection \<open>\<open>DocumentProcessor._parse_llm_response\<close>\<close>

definition backticks :: ustr where
  "backticks = [96, 96, 96]"

text \<open>The removal of a Markdown fence: the text between the first and the second fence,
  without a leading \<open>json\<close>.\<close>

definition strip_fence :: "ustr \<Rightarrow> error + ustr" where
  "strip_fence response =
     (if str_in backticks response
      then (case split response backticks of
              a # b # rest \<Rightarrow> Inr (if startswith b (u ''json'') then drop 4 b else b)
            | _ \<Rightarrow> Inl IndexError)
      else Inr response)"

text \<open>One round of the validation loop: the item is kept when it is a dict with the three
  keys and its folder is a target folder. \<open>float\<close> may raise; a \<open>TypeError\<close> or a
  \<open>ValueError\<close> gives the confidence 0.0, every other exception leaves the loop.\<close>

definition validate_item :: "pylib \<Rightarrow> ustr list \<Rightarrow> json \<Rightarrow> error + suggestion list" where
  "validate_item L target_folders item =
     (case item of
        JObj d \<Rightarrow>
          (case (map_of d (u ''folder''), map_of d (u ''reason''), map_of d (u ''confidence'')) of
             (Some f, Some r, Some c) \<Rightarrow>
               if json_in f target_folders
               then (case (case py_float L c of
                             Inl TypeError \<Rightarrow> Inr (Fin 0)
                           | Inl ValueError \<Rightarrow> Inr (Fin 0)
                           | Inl e \<Rightarrow> Inl e
                           | Inr x \<Rightarrow> Inr x) of
                       Inl e \<Rightarrow> Inl e
                     | Inr c' \<Rightarrow>
                         Inr [existing (py_str L f) (take 100 (py_str L r)) (clamp01 c')])
               else Inr []
           | _ \<Rightarrow> Inr [])
      | _ \<Rightarrow> Inr [])"

text \<open>The loop \<open>while len(valid_suggestions) < 3\<close> that appends the first target folder
  not yet suggested.\<close>

function fill_parsed :: "ustr list \<Rightarrow> suggestion list \<Rightarrow> suggestion list" where
  "fill_parsed target_folders valid_suggestions =
     (if length valid_suggestions < 3
      then (case filter (\<lambda>f. f \<notin> set (map folder valid_suggestions)) target_folders of
              [] \<Rightarrow> valid_suggestions
            | r # rs \<Rightarrow>
                fill_parsed target_folders
                  (valid_suggestions @ [existing r (u ''Allgemeine Zuordnung'') (fl (1/10))]))
      else valid_suggestions)"
  by pat_completeness auto
termination
  by (relation "measure (\<lambda>(tf, ss). 3 - length ss)") auto

text \<open>The validation loop over the decoded list.\<close>

definition validated :: "pylib \<Rightarrow> ustr list \<Rightarrow> json list \<Rightarrow> error + suggestion list" where
  "validated L target_folders items = collect (validate_item L target_folders) items"

text \<open>What follows the validation loop: the sort by confidence, the loop that fills up,
  and \<open>valid_suggestions[:3]\<close>.\<close>

definition ranked :: "ustr list \<Rightarrow> suggestion list \<Rightarrow> suggestion list" where
  "ranked target_folders valid_suggestions =
     take 3 (fill_parsed target_folders (sort_desc confidence valid_suggestions))"

text \<open>The body of the \<open>try\<close>: \<open>Inl\<close> is the exception it raises.\<close>

definition parse_body :: "pylib \<Rightarrow> ustr list \<Rightarrow> ustr \<Rightarrow> error + suggestion list" where
  "parse_body L target_folders response =
     (case strip_fence response of
        Inl e \<Rightarrow> Inl e
      | Inr response' \<Rightarrow>
          (case json_loads L (strip response') of
             None \<Rightarrow> Inl JSONDecodeError
           | Some (JArr items) \<Rightarrow>
               (case validated L target_folders items of
                  Inl e \<Rightarrow> Inl e
                | Inr valid_suggestions \<Rightarrow> Inr (ranked target_folders valid_suggestions))
           | Some _ \<Rightarrow> Inl ValueError))"

text \<open>The \<open>except Exception\<close> of \<open>_parse_llm_response\<close> calls the keyword classifier on
  the empty string.\<close>

definition parse_llm_response :: "pylib \<Rightarrow> ustr list \<Rightarrow> ustr \<Rightarrow> suggestion list" where
  "parse_llm_response L target_folders response =
     (case parse_body L target_folders response of
        Inl e \<Rightarrow> fallback_suggestions L target_folders []
      | Inr suggestions \<Rightarrow> suggestions)"

subsection \<open>\<open>DocumentProcessor.get_folder_suggestions\<close>\<close>

text \<open>
  The outcome of \<open>requests.post\<close>: it raised (no connection, timeout), or it returned a
  status code and a body; the body is what \<open>response.json()\<close> decodes, \<open>None\<close> when that
  raises. The prompt, with the learning hints in it, reaches the model only; the model is a
  black box, so its outcome is an input here. The hints are built before the \<open>try\<close> from
  the keyword index, whose folders and keywords are strings, so building them does not
  raise.
\<close>

datatype llm_outcome =
    PostRaised
  | Replied nat "json option"

text \<open>\<open>result.get('response', '').strip()\<close>.\<close>

definition response_text :: "json option \<Rightarrow> error + ustr" where
  "response_text body =
     (case body of
        None \<Rightarrow> Inl JSONDecodeError
      | Some (JObj d) \<Rightarrow>
          (case map_of d (u ''response'') of
             None \<Rightarrow> Inr (strip [])
           | Some (JStr s) \<Rightarrow> Inr (strip s)
           | Some _ \<Rightarrow> Inl AttributeError)
      | Some _ \<Rightarrow> Inl AttributeError)"

definition no_targets :: suggestion where
  "no_targets = existing (u ''Sonstiges'') (u ''Keine Zielordner gefunden'') (fl (1/10))"

definition get_folder_suggestions ::
    "pylib \<Rightarrow> ustr list \<Rightarrow> ustr \<Rightarrow> llm_outcome \<Rightarrow> suggestion list" where
  "get_folder_suggestions L target_folders text_content outcome =
     (if target_folders = [] then [no_targets, no_targets, no_targets]
      else (case outcome of
              PostRaised \<Rightarrow> fallback_suggestions L target_folders text_content
            | Replied status body \<Rightarrow>
                if status = 200
                then (case response_text body of
                        Inl e \<Rightarrow> fallback_suggestions L target_folders text_content
                      | Inr llm_response \<Rightarrow> parse_llm_response L target_folders llm_response)
                else fallback_suggestions L target_folders text_content))"

section \<open>The file system\<close>

text \<open>
  A path is the list of its components below the root. The file system holds the
  directories, the files with their contents, and the directories in which the operating
  system refuses to create or rename an entry (no permission, disk full). A file holds a
  document or the learning data that \<open>json.dump\<close> wrote.
\<close>

type_synonym path = "ustr list"

record decision =
  d_timestamp :: ustr
  d_filename :: ustr
  d_folder :: ustr

text \<open>The dict \<open>learning_data\<close>: the list \<open>decisions\<close> and the dict \<open>folder_keywords\<close>,
  a list of entries in insertion order.\<close>

record learning =
  decisions :: "decision list"
  folder_keywords :: "(ustr \<times> ustr list) list"

datatype content =
    Document ustr
  | LearningJson learning

record filesystem =
  dirs :: "path set"
  files :: "path \<rightharpoonup> content"
  refused :: "path set"

definition exists_path :: "filesystem \<Rightarrow> path \<Rightarrow> bool" where
  "exists_path fs p \<longleftrightarrow> p \<in> dirs fs \<or> files fs p \<noteq> None"

text \<open>
  \<open>base / spec\<close> of pathlib: the components of \<open>spec\<close> between slashes, without the
  empty ones and the single dots, appended to \<open>base\<close>; an absolute \<open>spec\<close> replaces
  \<open>base\<close>. A component \<open>..\<close> stays a component.
\<close>

definition path_div :: "path \<Rightarrow> ustr \<Rightarrow> path" where
  "path_div base spec =
     (if startswith spec [47] then [] else base)
       @ filter (\<lambda>c. c \<noteq> [] \<and> c \<noteq> [46]) (split spec [47])"

text \<open>\<open>os.mkdir\<close> under \<open>exist_ok=True\<close>: an existing directory is left as it is.\<close>

definition mkdir_exist_ok :: "filesystem \<Rightarrow> path \<Rightarrow> error + filesystem" where
  "mkdir_exist_ok fs p =
     (if p \<in> dirs fs then Inr fs
      else if files fs p \<noteq> None then Inl FileExistsError
      else if p = [] then Inl FileExistsError
      else if files fs (butlast p) \<noteq> None then Inl NotADirectoryError
      else if butlast p \<notin> dirs fs then Inl FileNotFoundError
      else if butlast p \<in> refused fs then Inl PermissionError
      else Inr (fs\<lparr>dirs := insert p (dirs fs)\<rparr>))"

text \<open>\<open>Path.mkdir(parents=True, exist_ok=True)\<close>: the missing ancestors first, then the
  directory; \<open>done\<close> is the part of the path already there.\<close>

fun mkdir_from :: "filesystem \<Rightarrow> path \<Rightarrow> path \<Rightarrow> error + filesystem" where
  "mkdir_from fs done [] = Inr fs"
| "mkdir_from fs done (c # cs) =
     (case mkdir_exist_ok fs (done @ [c]) of
        Inl e \<Rightarrow> Inl e
      | Inr fs' \<Rightarrow> mkdir_from fs' (done @ [c]) cs)"

definition mkdir_parents :: "filesystem \<Rightarrow> path \<Rightarrow> error + filesystem" where
  "mkdir_parents fs p = mkdir_from fs [] p"

text \<open>\<open>os.rename\<close> of a file on a POSIX system: a file at the destination is replaced.\<close>

definition os_rename :: "filesystem \<Rightarrow> path \<Rightarrow> path \<Rightarrow> error + filesystem" where
  "os_rename fs src dst =
     (case files fs src of
        None \<Rightarrow> Inl FileNotFoundError
      | Some c \<Rightarrow>
          if butlast dst \<notin> dirs fs then Inl FileNotFoundError
          else if butlast dst \<in> refused fs \<or> butlast src \<in> refused fs then Inl PermissionError
          else Inr (fs\<lparr>files := (files fs)(src := None, dst \<mapsto> c)\<rparr>))"

text \<open>\<open>shutil.move(src, dst)\<close> for a file \<open>src\<close>: into \<open>dst\<close> when that is a directory
  (an entry of the same name there is an error), onto \<open>dst\<close> otherwise.\<close>

definition shutil_move :: "filesystem \<Rightarrow> path \<Rightarrow> path \<Rightarrow> error + filesystem" where
  "shutil_move fs src dst =
     (if dst \<in> dirs fs \<and> src \<noteq> []
      then (if exists_path fs (dst @ [last src]) then Inl FileExistsError
            else os_rename fs src (dst @ [last src]))
      else os_rename fs src dst)"

text \<open>\<open>open(p, 'w')\<close> followed by a write.\<close>

definition write_file :: "filesystem \<Rightarrow> path \<Rightarrow> content \<Rightarrow> error + filesystem" where
  "write_file fs p c =
     (if p \<in> dirs fs \<or> p = [] then Inl PermissionError
      else if butlast p \<notin> dirs fs then Inl FileNotFoundError
      else if butlast p \<in> refused fs then Inl PermissionError
      else Inr (fs\<lparr>files := (files fs)(p \<mapsto> c)\<rparr>))"

text \<open>\<open>_get_target_folders\<close>: the names of the directories directly under \<open>ablage\<close> that
  do not start with a dot, sorted.\<close>

definition get_target_folders :: "filesystem \<Rightarrow> path \<Rightarrow> ustr list" where
  "get_target_folders fs ablage =
     (if ablage \<notin> dirs fs then []
      else sorted_list_of_set
             (last ` {p \<in> dirs fs. p \<noteq> [] \<and> butlast p = ablage \<and> \<not> startswith (last p) [46]}))"

text \<open>\<open>Path.suffix\<close> and \<open>Path.stem\<close> of a file name: the name is cut at its last dot,
  unless that dot is the first or the last character.\<close>

definition rfind_dot :: "ustr \<Rightarrow> nat option" where
  "rfind_dot name =
     (let k = length (takeWhile (\<lambda>c. c \<noteq> 46) (rev name))
      in if k = length name then None else Some (length name - 1 - k))"

definition path_suffix :: "ustr \<Rightarrow> ustr" where
  "path_suffix name =
     (case rfind_dot name of
        None \<Rightarrow> []
      | Some i \<Rightarrow> if 0 < i \<and> i < length name - 1 then drop i name else [])"

definition path_stem :: "ustr \<Rightarrow> ustr" where
  "path_stem name =
     (case rfind_dot name of
        None \<Rightarrow> name
      | Some i \<Rightarrow> if 0 < i \<and> i < length name - 1 then take i name else name)"

text \<open>A reading of the clock: \<open>datetime.now()\<close> as \<open>strftime("%Y%m%d_%H%M%S")\<close> prints
  it, and as \<open>isoformat()\<close> prints it.\<close>

record clock =
  strftime :: ustr
  isoformat :: ustr

section \<open>document\_organizer.py: the learning store and the move\<close>

record pending =
  p_path :: path
  p_suggestions :: "suggestion list"
  p_text_preview :: ustr
  p_timestamp :: ustr

text \<open>The \<open>DocumentProcessor\<close> with the module's dict \<open>pending_files\<close>.\<close>

record processor =
  dp_disk :: filesystem
  dp_ablage_path :: path
  dp_learning_file :: path
  dp_target_folders :: "ustr list"
  dp_learning_data :: learning
  pending_files :: "ustr \<rightharpoonup> pending"

text \<open>The keywords of a file name, as \<open>_update_learning_data\<close> derives them.\<close>

definition filename_keywords :: "pylib \<Rightarrow> ustr \<Rightarrow> ustr list" where
  "filename_keywords L filename =
     split (replace (replace (str_lower L filename) (u ''.pdf'') []) (u ''.docx'') []) (u ''_'')"

text \<open>One round of \<open>for keyword in keywords\<close>, on the list of the chosen folder.\<close>

definition add_keyword :: "ustr \<Rightarrow> ustr list \<Rightarrow> ustr list" where
  "add_keyword keyword known =
     (if length keyword > 3 \<and> keyword \<notin> set known then known @ [keyword] else known)"

text \<open>The change of \<open>learning_data\<close> in memory, before it is saved.\<close>

definition record_decision :: "pylib \<Rightarrow> learning \<Rightarrow> clock \<Rightarrow> ustr \<Rightarrow> ustr \<Rightarrow> learning" where
  "record_decision L ld now filename chosen_folder =
     (let decision = \<lparr>d_timestamp = isoformat now, d_filename = filename, d_folder = chosen_folder\<rparr>;
          appended = decisions ld @ [decision];
          fk = (if chosen_folder \<notin> fst ` set (folder_keywords ld)
                then AList.update chosen_folder [] (folder_keywords ld)
                else folder_keywords ld);
          known = (case map_of fk chosen_folder of None \<Rightarrow> [] | Some ks \<Rightarrow> ks);
          known' = fold add_keyword (filename_keywords L filename) known
      in \<lparr>decisions = drop (length appended - 100) appended,
          folder_keywords = AList.update chosen_folder known' fk\<rparr>)"

text \<open>\<open>_update_learning_data\<close>: the change in memory, then \<open>_save_learning_data\<close>. An
  exception of the write leaves the change in memory.\<close>

definition update_learning_data ::
    "pylib \<Rightarrow> processor \<Rightarrow> clock \<Rightarrow> ustr \<Rightarrow> ustr \<Rightarrow> (error + unit) \<times> processor" where
  "update_learning_data L st now filename chosen_folder =
     (let ld = record_decision L (dp_learning_data st) now filename chosen_folder;
          st1 = st\<lparr>dp_learning_data := ld\<rparr>
      in case write_file (dp_disk st1) (dp_learning_file st1) (LearningJson ld) of
           Inl e \<Rightarrow> (Inl e, st1)
         | Inr fs \<Rightarrow> (Inr (), st1\<lparr>dp_disk := fs\<rparr>))"

text \<open>The destination of a move: the plain name, or the name with the timestamp before
  the suffix when the plain name is taken.\<close>

definition target_file :: "filesystem \<Rightarrow> path \<Rightarrow> ustr \<Rightarrow> clock \<Rightarrow> path" where
  "target_file fs target_dir name now =
     (if exists_path fs (target_dir @ [name])
      then target_dir @ [path_stem name @ u ''_'' @ strftime now @ path_suffix name]
      else target_dir @ [name])"

text \<open>\<open>DocumentProcessor.move_file\<close>: \<open>Inl\<close> is the exception it raises, and the state is
  the one it leaves behind in either case.\<close>

definition move_file ::
    "pylib \<Rightarrow> processor \<Rightarrow> clock \<Rightarrow> path \<Rightarrow> ustr \<Rightarrow> (error + path) \<times> processor" where
  "move_file L st now file_path target_folder =
     (let target_dir = path_div (dp_ablage_path st) target_folder
      in case mkdir_exist_ok (dp_disk st) target_dir of
           Inl e \<Rightarrow> (Inl e, st)
         | Inr fs1 \<Rightarrow>
             (let st1 = st\<lparr>dp_disk := fs1\<rparr>;
                  name = (if file_path = [] then [] else last file_path);
                  dst = target_file fs1 target_dir name now
              in case shutil_move fs1 file_path dst of
                   Inl e \<Rightarrow> (Inl e, st1)
                 | Inr fs2 \<Rightarrow>
                     (case update_learning_data L (st1\<lparr>dp_disk := fs2\<rparr>) now name target_folder of
                        (Inl e, st2) \<Rightarrow> (Inl e, st2)
                      | (Inr _, st2) \<Rightarrow> (Inr dst, st2))))"

subsection \<open>\<open>api_move_file\<close>\<close>

datatype response =
    MoveOk ustr path
  | NotFound404
  | BadFolder400
  | Error500 error

definition api_move_file ::
    "pylib \<Rightarrow> processor \<Rightarrow> clock \<Rightarrow> ustr \<Rightarrow> ustr \<Rightarrow> response \<times> processor" where
  "api_move_file L st now filename target_folder =
     (case pending_files st filename of
        None \<Rightarrow> (NotFound404, st)
      | Some file_info \<Rightarrow>
          if target_folder \<notin> set (dp_target_folders st) then (BadFolder400, st)
          else (case move_file L st now (p_path file_info) target_folder of
                  (Inl e, st1) \<Rightarrow> (Error500 e, st1)
                | (Inr new_path, st1) \<Rightarrow>
                    (MoveOk target_folder new_path,
                     st1\<lparr>pending_files := (pending_files st1)(filename := None)\<rparr>)))"

subsection \<open>\<open>InboxHandler.process_new_file\<close>\<close>

text \<open>The preview kept for the web page: the first 300 characters and three dots when
  the text is longer, the text otherwise.\<close>

definition preview_300 :: "ustr \<Rightarrow> ustr" where
  "preview_300 text_content =
     (if length text_content > 300 then take 300 text_content @ u ''...'' else text_content)"

text \<open>\<open>text_content\<close> is what \<open>extract_text\<close> returned for the file, \<open>outcome\<close> what
  the call of the model did.\<close>

definition process_new_file ::
    "pylib \<Rightarrow> processor \<Rightarrow> clock \<Rightarrow> path \<Rightarrow> ustr \<Rightarrow> llm_outcome \<Rightarrow> processor" where
  "process_new_file L st now file_path text_content outcome =
     (let name = (if file_path = [] then [] else last file_path)
      in if startswith name (u ''.'') \<or> startswith name (u ''~'') then st
         else (let sugg = get_folder_suggestions L (dp_target_folders st) text_content outcome
               in st\<lparr>pending_files := (pending_files st)(name \<mapsto>
                     \<lparr>p_path = file_path, p_suggestions = sugg,
                      p_text_preview = preview_300 text_content,
                      p_timestamp = isoformat now\<rparr>)\<rparr>))"

section \<open>minimal\_organizer.py\<close>

text \<open>
  The dicts in the lists of minimal\_organizer.py: a suggestion of an existing folder has
  the keys \<open>folder\<close>, \<open>reason\<close> and \<open>confidence\<close>, a proposal of a new folder also
  \<open>folder_path\<close> and \<open>is_new\<close>. The confidence is any float (\<open>float(...)\<close> is not
  clamped here), and \<open>folder_path\<close> is a string or, when the model's answer gives it so,
  the raw value of the item's \<open>folder\<close>. An absent \<open>folder_path\<close> is \<open>None\<close>, an
  absent \<open>is_new\<close> is \<open>False\<close>.
\<close>

record choice =
  c_folder :: ustr
  c_folder_path :: "json option"
  c_reason :: ustr
  c_confidence :: pyfloat
  c_is_new :: bool

definition chosen :: "ustr \<Rightarrow> ustr \<Rightarrow> pyfloat \<Rightarrow> choice" where
  "chosen f r c =
     \<lparr>c_folder = f, c_folder_path = None, c_reason = r, c_confidence = c, c_is_new = False\<rparr>"

definition proposed :: "ustr \<Rightarrow> json \<Rightarrow> ustr \<Rightarrow> pyfloat \<Rightarrow> choice" where
  "proposed f p r c =
     \<lparr>c_folder = f, c_folder_path = Some p, c_reason = r, c_confidence = c, c_is_new = True\<rparr>"

subsection \<open>\<open>SimpleDocumentOrganizer.get_default_creation_suggestions\<close>\<close>

text \<open>The folder sign (U+1F4C1) and a blank, which start every displayed name of a new
  folder.\<close>

definition folder_sign :: ustr where
  "folder_sign = [128193, 32]"

definition invoice_proposal :: choice where
  "invoice_proposal =
     proposed (folder_sign @ u ''Neue Rechnungen'') (JStr (u ''Neue Rechnungen''))
       (u ''Rechnungsinhalt erkannt'') (Fin (fl (8/10)))"

definition contract_proposal :: choice where
  "contract_proposal =
     proposed (folder_sign @ u ''Vertr'' @ [228] @ u ''ge / Neue Kategorie'')
       (JStr (u ''Vertr'' @ [228] @ u ''ge/Neue Kategorie''))
       (u ''Vertragsinhalt erkannt'') (Fin (fl (7/10)))"

definition default_remaining :: "choice list" where
  "default_remaining =
     [proposed (folder_sign @ u ''Dokumente / Neue Kategorie'') (JStr (u ''Dokumente/Neue Kategorie''))
        (u ''Allgemeine Dokumentenablage'') (Fin (fl (5/10))),
      proposed (folder_sign @ u ''Tempor'' @ [228] @ u ''r / Zu Sortieren'')
        (JStr (u ''Tempor'' @ [228] @ u ''r/Zu Sortieren''))
        (u ''Tempor'' @ [228] @ u ''re Ablage f'' @ [252] @ u ''r sp'' @ [228] @ u ''tere Sortierung'')
        (Fin (fl (4/10)))]"

text \<open>The two content rules: \<open>any(word in text_lower for word in [...])\<close>.\<close>

definition invoice_words :: "ustr list" where
  "invoice_words = [u ''rechnung'', u ''invoice'', u ''betrag'', u ''eur'', [8364]]"

definition contract_words :: "ustr list" where
  "contract_words = [u ''vertrag'', u ''contract'', u ''vereinbarung'']"

definition get_default_creation_suggestions :: "pylib \<Rightarrow> ustr \<Rightarrow> choice list" where
  "get_default_creation_suggestions L text_content =
     (let text_lower = str_lower L text_content;
          s1 = (if list_ex (\<lambda>w. str_in w text_lower) invoice_words then [invoice_proposal] else []);
          s2 = s1 @ (if list_ex (\<lambda>w. str_in w text_lower) contract_words
                     then [contract_proposal] else []);
          s3 = (if length s2 < 3 then s2 @ take (3 - length s2) default_remaining else s2)
      in take 3 s3)"

subsection \<open>\<open>SimpleDocumentOrganizer.get_folder_creation_suggestions\<close>\<close>

text \<open>The call of the model through \<open>urllib\<close>: an HTTP status outside 2xx raises, as a
  failed connection does; then \<open>json.loads\<close> of the body and
  \<open>result.get('response', '').strip()\<close>.\<close>

definition urlopen_text :: "llm_outcome \<Rightarrow> error + ustr" where
  "urlopen_text outcome =
     (case outcome of
        PostRaised \<Rightarrow> Inl RequestException
      | Replied status body \<Rightarrow>
          if 200 \<le> status \<and> status < 300 then response_text body else Inl RequestException)"

text \<open>\<open>suggestions[:3]\<close> on a decoded value: the first three items of a list, the first
  three characters of a string; every other value raises.\<close>

definition first_three :: "json \<Rightarrow> error + json list" where
  "first_three j =
     (case j of
        JArr xs \<Rightarrow> Inr (take 3 xs)
      | JStr s \<Rightarrow> Inr (map (\<lambda>c. JStr [c]) (take 3 s))
      | _ \<Rightarrow> Inl TypeError)"

text \<open>The truth value of a decoded value in \<open>if subfolder:\<close>.\<close>

definition truthy :: "json \<Rightarrow> bool" where
  "truthy j =
     (case j of
        JNull \<Rightarrow> False
      | JBool b \<Rightarrow> b
      | JInt n \<Rightarrow> n \<noteq> 0
      | JFloat f \<Rightarrow> f \<noteq> Fin 0
      | JStr s \<Rightarrow> s \<noteq> []
      | JArr xs \<Rightarrow> xs \<noteq> []
      | JObj d \<Rightarrow> d \<noteq> [])"

text \<open>\<open>item.get(key, default)\<close>.\<close>

definition dict_get :: "(ustr \<times> json) list \<Rightarrow> ustr \<Rightarrow> json \<Rightarrow> json" where
  "dict_get d k dflt = (case map_of d k of None \<Rightarrow> dflt | Some v \<Rightarrow> v)"

text \<open>One round of the loop over the model's items. With a subfolder the path is the
  string \<open>folder/subfolder\<close>; without one it is the value of \<open>folder\<close> as decoded.\<close>

definition creation_item :: "pylib \<Rightarrow> json \<Rightarrow> error + choice list" where
  "creation_item L item =
     (case item of
        JObj d \<Rightarrow>
          (case map_of d (u ''folder'') of
             None \<Rightarrow> Inr []
           | Some folder_name \<Rightarrow>
               (let subfolder = dict_get d (u ''subfolder'') JNull;
                    full_path = (if truthy subfolder
                                 then JStr (py_str L folder_name @ u ''/'' @ py_str L subfolder)
                                 else folder_name);
                    display_name = (if truthy subfolder
                                    then folder_sign @ py_str L folder_name @ u '' / '' @ py_str L subfolder
                                    else folder_sign @ py_str L folder_name)
                in case py_float L (dict_get d (u ''confidence'') (JFloat (Fin (fl (7/10))))) of
                     Inl e \<Rightarrow> Inl e
                   | Inr c \<Rightarrow>
                       Inr [proposed display_name full_path
                              (take 100 (py_str L (dict_get d (u ''reason'')
                                 (JStr (u ''Neuer Ordner-Vorschlag''))))) c]))
      | _ \<Rightarrow> Inr [])"

definition creation_body :: "pylib \<Rightarrow> llm_outcome \<Rightarrow> error + choice list" where
  "creation_body L outcome =
     (case urlopen_text outcome of
        Inl e \<Rightarrow> Inl e
      | Inr llm_response \<Rightarrow>
          (case strip_fence llm_response of
             Inl e \<Rightarrow> Inl e
           | Inr llm_response' \<Rightarrow>
               (case json_loads L (strip llm_response') of
                  None \<Rightarrow> Inl JSONDecodeError
                | Some decoded \<Rightarrow>
                    (case first_three decoded of
                       Inl e \<Rightarrow> Inl e
                     | Inr items \<Rightarrow> collect (creation_item L) items))))"

text \<open>\<open>outcome\<close> is what the call of the model for new folder names did.\<close>

definition get_folder_creation_suggestions ::
    "pylib \<Rightarrow> ustr \<Rightarrow> llm_outcome \<Rightarrow> choice list" where
  "get_folder_creation_suggestions L text_content outcome =
     (case creation_body L outcome of
        Inl e \<Rightarrow> get_default_creation_suggestions L text_content
      | Inr creation_suggestions \<Rightarrow> creation_suggestions)"

subsection \<open>\<open>SimpleDocumentOrganizer.get_fallback_suggestions\<close>\<close>

definition minimal_keywords :: "(ustr \<times> ustr list) list" where
  "minimal_keywords =
     [(u ''Rechnungen'', [u ''rechnung'', u ''invoice'', u ''betrag'', u ''eur'', [8364], u ''mwst'', u ''ust'']),
      (u ''Bank'', [u ''iban'', u ''bic'', 252 # u ''berweisung'', u ''konto'', u ''bank'', u ''sparkasse'']),
      (u ''Vertraege'', [u ''vertrag'', u ''contract'', u ''vereinbarung'', u ''bedingungen'']),
      (u ''Auto'', [u ''kfz'', u ''auto'', u ''fahrzeug'', u ''versicherung'', u ''werkstatt'', u ''t'' @ [252] @ u ''v'']),
      (u ''Arbeit'', [u ''arbeit'', u ''gehalt'', u ''firma'', u ''unternehmen'', u ''job'', u ''lohn''])]"

text \<open>The loop \<open>while len(suggestions) < 3\<close> of this implementation.\<close>

function fill_minimal :: "ustr list \<Rightarrow> choice list \<Rightarrow> choice list" where
  "fill_minimal target_folders suggestions =
     (if length suggestions < 3
      then (case filter (\<lambda>f. f \<notin> set (map c_folder suggestions)) target_folders of
              [] \<Rightarrow> suggestions
            | r # rs \<Rightarrow>
                if u ''Sonstiges'' \<in> set (r # rs)
                then fill_minimal target_folders
                       (suggestions @ [chosen (u ''Sonstiges'') (u ''Standard-Fallback'') (Fin (fl (1/10)))])
                else fill_minimal target_folders
                       (suggestions @ [chosen r (u ''Automatische Zuordnung'') (Fin (fl (1/10)))]))
      else suggestions)"
  by pat_completeness auto
termination
  by (relation "measure (\<lambda>(tf, ss). 3 - length ss)") auto

text \<open>The suggestions before the quality gate.\<close>

definition fallback_candidates :: "pylib \<Rightarrow> ustr list \<Rightarrow> ustr \<Rightarrow> choice list" where
  "fallback_candidates L target_folders text_content =
     (let text_lower = str_lower L text_content;
          scores = keyword_scores minimal_keywords target_folders text_lower;
          sorted_folders = sort_desc (\<lambda>(f, score). of_nat score) scores;
          suggestions =
            map (\<lambda>(f, score).
                   chosen f (u ''Schl'' @ [252] @ u ''sselw'' @ [246] @ u ''rter erkannt'')
                     (Fin (min (fl (8/10)) (fl (of_nat score * fl (3/10))))))
              (take 2 sorted_folders)
      in fill_minimal target_folders suggestions)"

definition get_fallback_suggestions ::
    "pylib \<Rightarrow> ustr list \<Rightarrow> ustr \<Rightarrow> llm_outcome \<Rightarrow> choice list" where
  "get_fallback_suggestions L target_folders text_content creation_outcome =
     (let suggestions = fallback_candidates L target_folders text_content;
          good_fallback = filter (\<lambda>s. f_ge (c_confidence s) (Fin (fl (5/10)))) suggestions
      in if length good_fallback \<ge> 2 then take 3 suggestions
         else get_folder_creation_suggestions L text_content creation_outcome)"

subsection \<open>\<open>SimpleDocumentOrganizer.get_folder_suggestions_llm\<close>\<close>

definition llm_item :: "pylib \<Rightarrow> ustr list \<Rightarrow> json \<Rightarrow> error + choice list" where
  "llm_item L target_folders item =
     (case item of
        JObj d \<Rightarrow>
          (case map_of d (u ''folder'') of
             None \<Rightarrow> Inr []
           | Some f \<Rightarrow>
               if json_in f target_folders
               then (case py_float L (dict_get d (u ''confidence'') (JFloat (Fin (fl (5/10))))) of
                       Inl e \<Rightarrow> Inl e
                     | Inr c \<Rightarrow>
                         Inr [chosen (py_str L f)
                                (take 80 (py_str L (dict_get d (u ''reason'') (JStr (u ''KI-Vorschlag'')))))
                                c])
               else Inr [])
      | _ \<Rightarrow> Inr [])"

text \<open>The validation of the model's answer: \<open>Inl\<close> is the exception raised on the way,
  \<open>Inr\<close> the list \<open>valid\<close>.\<close>

definition llm_valid :: "pylib \<Rightarrow> ustr list \<Rightarrow> llm_outcome \<Rightarrow> error + choice list" where
  "llm_valid L target_folders outcome =
     (case urlopen_text outcome of
        Inl e \<Rightarrow> Inl e
      | Inr llm_response \<Rightarrow>
          (case strip_fence llm_response of
             Inl e \<Rightarrow> Inl e
           | Inr llm_response' \<Rightarrow>
               (case json_loads L (strip llm_response') of
                  None \<Rightarrow> Inl JSONDecodeError
                | Some decoded \<Rightarrow>
                    (case first_three decoded of
                       Inl e \<Rightarrow> Inl e
                     | Inr items \<Rightarrow> collect (llm_item L target_folders) items))))"

text \<open>\<open>outcome\<close> is what the call of the model for folder choices did,
  \<open>creation_outcome\<close> what the call for new folder names did (when it is made).\<close>

definition get_folder_suggestions_llm ::
    "pylib \<Rightarrow> ustr list \<Rightarrow> ustr \<Rightarrow> llm_outcome \<Rightarrow> llm_outcome \<Rightarrow> choice list" where
  "get_folder_suggestions_llm L target_folders text_content outcome creation_outcome =
     (case llm_valid L target_folders outcome of
        Inl e \<Rightarrow> get_fallback_suggestions L target_folders text_content creation_outcome
      | Inr valid \<Rightarrow>
          (let good_suggestions = filter (\<lambda>s. f_ge (c_confidence s) (Fin (fl (6/10)))) valid
           in if length good_suggestions \<ge> 2 then valid
              else get_folder_creation_suggestions L text_content creation_outcome))"

subsection \<open>\<open>SimpleDocumentOrganizer.move_file\<close> and the route \<open>/move\<close>\<close>

record organizer =
  m_disk :: filesystem
  m_inbox_path :: path
  m_ablage_path :: path
  m_target_folders :: "ustr list"

text \<open>The name with the timestamp: \<open>filename.rsplit('.', 1)\<close> cuts at the last dot.\<close>

definition stamped_name :: "ustr \<Rightarrow> ustr \<Rightarrow> ustr" where
  "stamped_name filename stamp =
     (case rfind_dot filename of
        None \<Rightarrow> filename @ u ''_'' @ stamp
      | Some i \<Rightarrow>
          (let name = take i filename; ext = drop (Suc i) filename
           in if ext \<noteq> [] then name @ u ''_'' @ stamp @ u ''.'' @ ext
              else name @ u ''_'' @ stamp))"

definition minimal_move_file ::
    "organizer \<Rightarrow> clock \<Rightarrow> ustr \<Rightarrow> ustr \<Rightarrow> bool \<Rightarrow> (error + path) \<times> organizer" where
  "minimal_move_file st now filename target_folder is_new_folder =
     (let source = path_div (m_inbox_path st) filename;
          target_dir = path_div (m_ablage_path st) target_folder
      in case mkdir_parents (m_disk st) target_dir of
           Inl e \<Rightarrow> (Inl e, st)
         | Inr fs1 \<Rightarrow>
             (let st1 = st\<lparr>m_disk := fs1\<rparr>;
                  st2 = (if is_new_folder
                         then st1\<lparr>m_target_folders := get_target_folders fs1 (m_ablage_path st1)\<rparr>
                         else st1);
                  dst = (if exists_path fs1 (path_div target_dir filename)
                         then path_div target_dir (stamped_name filename (strftime now))
                         else path_div target_dir filename)
              in case shutil_move fs1 source dst of
                   Inl e \<Rightarrow> (Inl e, st2)
                 | Inr fs2 \<Rightarrow> (Inr dst, st2\<lparr>m_disk := fs2\<rparr>)))"

text \<open>The route \<open>/move\<close> of \<open>do_POST\<close>: \<open>OK\<close>, or the error 500 with the exception.\<close>

datatype move_reply =
    PlainOk
  | SendError500 error

definition post_move :: "organizer \<Rightarrow> clock \<Rightarrow> ustr \<Rightarrow> ustr \<Rightarrow> move_reply \<times> organizer" where
  "post_move st now filename folder_name =
     (case minimal_move_file st now filename folder_name False of
        (Inl e, st') \<Rightarrow> (SendError500 e, st')
      | (Inr p, st') \<Rightarrow> (PlainOk, st'))"

subsection \<open>A sequence of recorded decisions\<close>

text \<open>The calls of \<open>record_decision\<close> one after the other; a call is the reading of the
  clock, the file name and the chosen folder.\<close>

fun record_all :: "pylib \<Rightarrow> learning \<Rightarrow> (clock \<times> ustr \<times> ustr) list \<Rightarrow> learning" where
  "record_all L ld [] = ld"
| "record_all L ld ((now, filename, chosen_folder) # calls) =
     record_all L (record_decision L ld now filename chosen_folder) calls"

text \<open>The record that a call appends to the log.\<close>

definition decision_of :: "clock \<times> ustr \<times> ustr \<Rightarrow> decision" where
  "decision_of call =
     (case call of (now, filename, chosen_folder) \<Rightarrow>
        \<lparr>d_timestamp = isoformat now, d_filename = filename, d_folder = chosen_folder\<rparr>)"

text \<open>The tokens of a file name in the words of the specification: the lower-case
  name split on the separator, the tokens longer than three characters kept.\<close>

definition spec_tokens :: "pylib \<Rightarrow> ustr \<Rightarrow> ustr list" where
  "spec_tokens L filename = filter (\<lambda>k. length k > 3) (split (str_lower L filename) (u ''_''))"

text \<open>The keyword is in the index of the folder.\<close>

definition indexed :: "learning \<Rightarrow> ustr \<Rightarrow> ustr \<Rightarrow> bool" where
  "indexed ld f k = (case map_of (folder_keywords ld) f of None \<Rightarrow> False | Some ks \<Rightarrow> k \<in> set ks)"

section \<open>Predicates of the properties\<close>




section \<open>Values for the examples\<close>

text \<open>
  An instance of the library functions, to evaluate the definitions on examples:
  \<open>str.lower\<close> on ASCII text, and \<open>json.loads\<close> on the three JSON texts of the
  examples (every other text of the examples is not JSON); a number such as \<open>0.9\<close>
  decodes to the nearest double. The examples call \<open>float\<close> and \<open>str\<close> on floats
  and strings only.
\<close>

definition ascii_lower :: "ustr \<Rightarrow> ustr" where
  "ascii_lower s = map (\<lambda>c. if 65 \<le> c \<and> c \<le> 90 then c + 32 else c) s"

definition twice_bank_text :: ustr where
  \<open>twice_bank_text =
     u ''[{"folder":"Bank","reason":"r","confidence":0.9},{"folder":"Bank","reason":"r","confidence":0.05}]''\<close>

definition twice_bank :: json where
  "twice_bank =
     JArr [JObj [(u ''folder'', JStr (u ''Bank'')), (u ''reason'', JStr (u ''r'')), (u ''confidence'', JFloat (Fin (fl (9/10))))],
           JObj [(u ''folder'', JStr (u ''Bank'')), (u ''reason'', JStr (u ''r'')), (u ''confidence'', JFloat (Fin (fl (5/100))))]]"

definition unknown_folder_text :: ustr where
  \<open>unknown_folder_text = u ''[{"folder":"Steuer","reason":"r","confidence":0.9}]''\<close>

definition unknown_folder :: json where
  "unknown_folder =
     JArr [JObj [(u ''folder'', JStr (u ''Steuer'')), (u ''reason'', JStr (u ''r'')), (u ''confidence'', JFloat (Fin (fl (9/10))))]]"

definition bank_auto_text :: ustr where
  \<open>bank_auto_text =
     u ''[{"folder":"Bank","reason":"r","confidence":0.9},{"folder":"Auto","reason":"r","confidence":0.7}]''\<close>

definition bank_auto :: json where
  "bank_auto =
     JArr [JObj [(u ''folder'', JStr (u ''Bank'')), (u ''reason'', JStr (u ''r'')), (u ''confidence'', JFloat (Fin (fl (9/10))))],
           JObj [(u ''folder'', JStr (u ''Auto'')), (u ''reason'', JStr (u ''r'')), (u ''confidence'', JFloat (Fin (fl (7/10))))]]"

definition sample_loads :: "ustr \<Rightarrow> json option" where
  "sample_loads s =
     (if s = twice_bank_text then Some twice_bank
      else if s = unknown_folder_text then Some unknown_folder
      else if s = bank_auto_text then Some bank_auto
      else None)"

definition sample_lib :: pylib where
  "sample_lib = \<lparr>json_loads = sample_loads, float_str = (\<lambda>s. None),
                  repr_json = (\<lambda>j. []), str_lower = ascii_lower\<rparr>"

definition sample_clock :: clock where
  "sample_clock = \<lparr>strftime = u ''20240102_030405'', isoformat = u ''2024-01-02T03:04:05''\<rparr>"

definition nas :: path where
  "nas = [u ''home'', u ''NAS'']"

text \<open>A disk with the inbox, the directory \<open>ablage\<close> with three folders, and the
  directory \<open>processed\<close>; the inbox holds one file.\<close>

definition sample_disk :: filesystem where
  "sample_disk =
     \<lparr>dirs = {[], [u ''home''], nas, nas @ [u ''inbox''], nas @ [u ''ablage''], nas @ [u ''processed''],
              nas @ [u ''ablage'', u ''Auto''], nas @ [u ''ablage'', u ''Bank''],
              nas @ [u ''ablage'', u ''Sonstiges'']},
      files = [nas @ [u ''inbox'', u ''brief.txt''] \<mapsto> Document (u ''erster Brief'')],
      refused = {}\<rparr>"

definition sample_processor :: processor where
  "sample_processor =
     \<lparr>dp_disk = sample_disk, dp_ablage_path = nas @ [u ''ablage''],
      dp_learning_file = nas @ [u ''processed'', u ''learning_data.json''],
      dp_target_folders = [u ''Auto'', u ''Bank'', u ''Sonstiges''],
      dp_learning_data = \<lparr>decisions = [], folder_keywords = []\<rparr>,
      pending_files = Map.empty\<rparr>"

text \<open>The model answers with the JSON text that names \<open>Bank\<close> twice.\<close>

definition two_bank_reply :: llm_outcome where
  "two_bank_reply = Replied 200 (Some (JObj [(u ''response'', JStr twice_bank_text)]))"

text \<open>The model answers with the JSON text that names \<open>Bank\<close> and \<open>Auto\<close>.\<close>

definition bank_auto_reply :: llm_outcome where
  "bank_auto_reply = Replied 200 (Some (JObj [(u ''response'', JStr bank_auto_text)]))"





section \<open>Properties\<close>

subsection \<open>Facts about the records\<close>

lemma existing_simps [simp]:
  "is_new (existing f r c) = False"
  "folder_path (existing f r c) = None"
  "folder (existing f r c) = f"
  "confidence (existing f r c) = c"
  "reason (existing f r c) = r"
  by (simp_all add: existing_def)

subsection \<open>The preview of a pending file\<close>

lemma length_preview_300: "length (preview_300 t) \<le> 303"
  by (simp add: preview_300_def u_def)

text \<open>
  Claim C8, as the code has it. The entry that \<open>process_new_file\<close> stores for a file whose
  name starts neither with a dot nor with a tilde holds a preview of at most 303 characters:
  the text itself when it has at most 300 characters, its first 300 characters followed by
  three dots otherwise.
\<close>

theorem process_new_file_preview:
  assumes "file_path \<noteq> []"
    and "\<not> startswith (last file_path) (u ''.'')"
    and "\<not> startswith (last file_path) (u ''~'')"
  shows "\<exists>e. pending_files (process_new_file L st now file_path text_content outcome) (last file_path) = Some e
           \<and> length (p_text_preview e) \<le> 303
           \<and> p_text_preview e =
               (if length text_content \<le> 300 then text_content else take 300 text_content @ u ''...'')"
  using assms length_preview_300 [of text_content]
  by (auto simp add: process_new_file_def Let_def preview_300_def)

theorem process_new_file_preview_witness:
  "\<exists>e. pending_files (process_new_file sample_lib sample_processor sample_clock
            (nas @ [u ''inbox'', u ''brief.txt'']) (replicate 301 97) PostRaised) (u ''brief.txt'') = Some e
         \<and> length (p_text_preview e) \<le> 303
         \<and> p_text_preview e = replicate 300 97 @ u ''...''"
  using process_new_file_preview [of "nas @ [u ''inbox'', u ''brief.txt'']" sample_lib sample_processor
      sample_clock "replicate 301 97" PostRaised]
  by (simp add: u_def nas_def)

text \<open>The claim as stated (at most 300 characters) fails for a text of 301 characters:
  its preview has 303.\<close>

theorem preview_longer_than_300:
  "\<exists>e. pending_files (process_new_file sample_lib sample_processor sample_clock
            (nas @ [u ''inbox'', u ''brief.txt'']) (replicate 301 97) PostRaised) (u ''brief.txt'') = Some e
         \<and> length (p_text_preview e) = 303"
  by (simp add: process_new_file_def Let_def preview_300_def u_def nas_def)

subsection \<open>Facts about the floats of the program\<close>

lemma fl_values:
  "fl (1/10) = 3602879701896397/36028797018963968"
  "fl (2/10) = 3602879701896397/18014398509481984"
  "fl (3/10) = 5404319552844595/18014398509481984"
  "fl (4/10) = 3602879701896397/9007199254740992"
  "fl (5/10) = 1/2"
  "fl (6/10) = 5404319552844595/9007199254740992"
  "fl (7/10) = 3152519739159347/4503599627370496"
  "fl (8/10) = 3602879701896397/4503599627370496"
  "fl (9/10) = 8106479329266893/9007199254740992"
  "fl (5/100) = 3602879701896397/72057594037927936"
  by code_simp+






lemma clamp01_exact: "py_max (Fin 0) (py_min (Fin 1) c) = Fin (clamp01 c)"
  by (cases c) (auto simp add: clamp01_def py_max_def py_min_def)


subsection \<open>The proposals of new folders\<close>

lemma proposed_simps [simp]:
  "c_is_new (proposed f p r c) = True"
  "c_folder_path (proposed f p r c) = Some p"
  "c_folder (proposed f p r c) = f"
  "c_confidence (proposed f p r c) = c"
  "c_reason (proposed f p r c) = r"
  by (simp_all add: proposed_def)

lemma chosen_simps [simp]:
  "c_is_new (chosen f r c) = False"
  "c_folder_path (chosen f r c) = None"
  "c_folder (chosen f r c) = f"
  "c_confidence (chosen f r c) = c"
  "c_reason (chosen f r c) = r"
  by (simp_all add: chosen_def)

text \<open>The result of the deterministic fallback, case by case.\<close>

lemma default_creation_cases:
  "get_default_creation_suggestions L t =
     (if list_ex (\<lambda>w. str_in w (str_lower L t)) invoice_words
      then (if list_ex (\<lambda>w. str_in w (str_lower L t)) contract_words
            then invoice_proposal # contract_proposal # take 1 default_remaining
            else invoice_proposal # default_remaining)
      else (if list_ex (\<lambda>w. str_in w (str_lower L t)) contract_words
            then contract_proposal # default_remaining
            else default_remaining))"
  by (simp add: get_default_creation_suggestions_def Let_def default_remaining_def)

lemma default_creation_new:
  "s \<in> set (get_default_creation_suggestions L t) \<Longrightarrow>
     c_is_new s \<and> (\<exists>p. c_folder_path s = Some (JStr p))"
  by (auto simp add: default_creation_cases default_remaining_def invoice_proposal_def
      contract_proposal_def split: if_splits)


lemma collect_set:
  assumes "\<And>x ys y. f x = Inr ys \<Longrightarrow> y \<in> set ys \<Longrightarrow> P y"
  shows "collect f xs = Inr zs \<Longrightarrow> z \<in> set zs \<Longrightarrow> P z"
proof (induction xs arbitrary: zs)
  case Nil
  then show ?case by simp
next
  case (Cons x xs)
  then show ?case
    using assms by (fastforce split: sum.splits)
qed

lemma first_three_length: "first_three j = Inr items \<Longrightarrow> length items \<le> 3"
  by (auto simp add: first_three_def split: json.splits)

text \<open>What one item of the model's answer becomes: nothing, or one proposal whose path is
  the joined string when a subfolder is given and the raw folder value otherwise.\<close>

lemma creation_item_shape:
  assumes "creation_item L x = Inr ys"
  shows "ys = [] \<or> (\<exists>d folder_name display r c. x = JObj d \<and> map_of d (u ''folder'') = Some folder_name
            \<and> ys = [proposed display
                      (if truthy (dict_get d (u ''subfolder'') JNull)
                       then JStr (py_str L folder_name @ u ''/'' @ py_str L (dict_get d (u ''subfolder'') JNull))
                       else folder_name) r c])"
proof (cases x)
  case (JObj d)
  show ?thesis
  proof (cases "map_of d (u ''folder'')")
    case None
    then show ?thesis using assms JObj by (simp add: creation_item_def)
  next
    case (Some folder_name)
    show ?thesis
    proof (cases "py_float L (dict_get d (u ''confidence'') (JFloat (Fin (fl (7/10)))))")
      case (Inl e)
      then show ?thesis using assms JObj Some by (simp add: creation_item_def Let_def)
    next
      case (Inr c)
      then have "ys = [proposed
           (if truthy (dict_get d (u ''subfolder'') JNull)
            then folder_sign @ py_str L folder_name @ u '' / '' @ py_str L (dict_get d (u ''subfolder'') JNull)
            else folder_sign @ py_str L folder_name)
           (if truthy (dict_get d (u ''subfolder'') JNull)
            then JStr (py_str L folder_name @ u ''/'' @ py_str L (dict_get d (u ''subfolder'') JNull))
            else folder_name)
           (take 100 (py_str L (dict_get d (u ''reason'') (JStr (u ''Neuer Ordner-Vorschlag'')))))
           c]"
        using assms JObj Some
        by (simp add: creation_item_def Let_def split del: if_split)
      then show ?thesis using JObj Some by blast
    qed
  qed
qed (use assms in \<open>simp_all add: creation_item_def\<close>)


lemma creation_item_new:
  "creation_item L x = Inr ys \<Longrightarrow> y \<in> set ys \<Longrightarrow> c_is_new y"
  using creation_item_shape [of L x ys] by auto


lemma collect_creation_new:
  "collect (creation_item L) xs = Inr zs \<Longrightarrow> z \<in> set zs \<Longrightarrow> c_is_new z"
  using collect_set [of "creation_item L" c_is_new xs zs z] creation_item_new [of L] by blast

lemma creation_body_items:
  "creation_body L outcome = Inr zs \<Longrightarrow>
     \<exists>items. length items \<le> 3 \<and> collect (creation_item L) items = Inr zs"
  unfolding creation_body_def
  by (auto split: sum.splits option.splits dest: first_three_length)


lemma creation_body_new:
  "creation_body L outcome = Inr zs \<Longrightarrow> z \<in> set zs \<Longrightarrow> c_is_new z"
  using creation_body_items [of L outcome zs] collect_creation_new [of L _ zs z]
  by blast

lemma creation_suggestions_new:
  "s \<in> set (get_folder_creation_suggestions L t outcome) \<Longrightarrow> c_is_new s"
  using creation_body_new [of L outcome] default_creation_new [of s L t]
  by (auto simp add: get_folder_creation_suggestions_def split: sum.splits)








subsection \<open>The learning store\<close>

lemma last_n_append:
  "drop (length (drop (length xs - n) xs @ ys) - n) (drop (length xs - n) xs @ ys)
     = drop (length (xs @ ys) - n) (xs @ ys)"
  by (cases "length xs \<le> n") (auto simp add: drop_append add.commute)

lemma decisions_record_decision:
  "decisions (record_decision L ld now fn fo)
     = drop (length (decisions ld @ [decision_of (now, fn, fo)]) - 100) (decisions ld @ [decision_of (now, fn, fo)])"
  by (simp add: record_decision_def Let_def decision_of_def)

lemma decisions_record_all:
  "calls \<noteq> [] \<Longrightarrow>
     decisions (record_all L ld calls)
       = drop (length (decisions ld @ map decision_of calls) - 100) (decisions ld @ map decision_of calls)"
proof (induction calls arbitrary: ld)
  case Nil
  then show ?case by simp
next
  case (Cons c calls)
  obtain now fn fo where c: "c = (now, fn, fo)" by (cases c) auto
  show ?case
  proof (cases "calls = []")
    case True
    then show ?thesis using c by (simp add: decisions_record_decision)
  next
    case False
    have "decisions (record_all L ld (c # calls))
            = decisions (record_all L (record_decision L ld now fn fo) calls)"
      using c by simp
    also have "\<dots> = drop (length (decisions (record_decision L ld now fn fo) @ map decision_of calls) - 100)
                        (decisions (record_decision L ld now fn fo) @ map decision_of calls)"
      using Cons.IH [OF False] by simp
    also have "\<dots> = drop (length ((decisions ld @ [decision_of c]) @ map decision_of calls) - 100)
                        ((decisions ld @ [decision_of c]) @ map decision_of calls)"
      unfolding decisions_record_decision c by (rule last_n_append)
    finally show ?thesis by simp
  qed
qed

lemma set_fold_add_keyword:
  "set (fold add_keyword ks known) = set known \<union> {k \<in> set ks. length k > 3}"
proof (induction ks arbitrary: known)
  case Nil
  then show ?case by simp
next
  case (Cons a ks)
  have "set (add_keyword a known) = set known \<union> {k \<in> {a}. length k > 3}"
    by (auto simp add: add_keyword_def)
  then show ?case
    using Cons.IH [of "add_keyword a known"] by auto
qed

lemma map_of_record_decision:
  "map_of (folder_keywords (record_decision L ld now fn fo)) f
     = (if f = fo
        then Some (fold add_keyword (filename_keywords L fn)
                     (case map_of (folder_keywords ld) fo of None \<Rightarrow> [] | Some ks \<Rightarrow> ks))
        else map_of (folder_keywords ld) f)"
proof (cases "fo \<in> fst ` set (folder_keywords ld)")
  case True
  then show ?thesis
    by (simp add: record_decision_def Let_def update_conv')
next
  case False
  then have "map_of (folder_keywords ld) fo = None"
    by (simp add: map_of_eq_None_iff)
  then show ?thesis
    using False by (simp add: record_decision_def Let_def update_conv')
qed

text \<open>The index after one call holds what it held before and the keywords of the file
  name that are longer than three characters, under the chosen folder.\<close>

lemma indexed_record_decision:
  "indexed (record_decision L ld now fn fo) f k \<longleftrightarrow>
     indexed ld f k \<or> (fo = f \<and> length k > 3 \<and> k \<in> set (filename_keywords L fn))"
  by (auto simp add: indexed_def map_of_record_decision set_fold_add_keyword split: option.splits)

lemma indexed_record_all:
  "indexed (record_all L ld calls) f k \<longleftrightarrow>
     indexed ld f k
     \<or> (\<exists>(now, filename, chosen_folder) \<in> set calls.
           chosen_folder = f \<and> length k > 3 \<and> k \<in> set (filename_keywords L filename))"
proof (induction calls arbitrary: ld)
  case Nil
  then show ?case by simp
next
  case (Cons c calls)
  obtain now fn fo where c: "c = (now, fn, fo)" by (cases c) auto
  show ?case
    unfolding c using Cons.IH [of "record_decision L ld now fn fo"]
    by (auto simp add: indexed_record_decision)
qed

lemma replace_absent: "\<not> str_in old s \<Longrightarrow> replace s old new = s"
  by (induction s old new rule: replace.induct) auto

lemma spec_tokens_agree:
  assumes "\<not> str_in (u ''.pdf'') (str_lower L filename)"
    and "\<not> str_in (u ''.docx'') (str_lower L filename)"
  shows "filter (\<lambda>k. length k > 3) (filename_keywords L filename) = spec_tokens L filename"
  using assms by (simp add: filename_keywords_def spec_tokens_def replace_absent)

text \<open>
  Claim C6. After any sequence of calls that is not empty, the log is the last 100 records
  of the old log followed by the new records, so it has at most 100 records and the oldest
  are evicted first; after 101 calls on an empty log the first record is gone and 100 remain.
  The index only grows, and it holds exactly what it held before and, under the chosen
  folder of every call, the tokens of the file name that are longer than three characters,
  also when the record itself has been evicted. The tokens of a file name are the pieces
  between underscores of the lower-case name after every \<open>.pdf\<close> and then every
  \<open>.docx\<close> has been deleted from it; for a name that has neither they are the pieces
  between underscores of the lower-case name.
\<close>

theorem decision_log_capped_index_grows:
  assumes "calls \<noteq> []"
  shows "decisions (record_all L ld calls)
           = drop (length (decisions ld @ map decision_of calls) - 100)
               (decisions ld @ map decision_of calls)
         \<and> length (decisions (record_all L ld calls)) \<le> 100
         \<and> (decisions ld = [] \<and> length calls = 101 \<longrightarrow>
              decisions (record_all L ld calls) = map decision_of (tl calls)
              \<and> length (decisions (record_all L ld calls)) = 100)
         \<and> (\<forall>f k. indexed ld f k \<longrightarrow> indexed (record_all L ld calls) f k)
         \<and> (\<forall>f k. indexed (record_all L ld calls) f k \<longleftrightarrow>
              indexed ld f k
              \<or> (\<exists>(now, filename, chosen_folder) \<in> set calls.
                    chosen_folder = f \<and> length k > 3
                    \<and> k \<in> set (split (replace (replace (str_lower L filename) (u ''.pdf'') [])
                                        (u ''.docx'') []) (u ''_''))))
         \<and> (\<forall>filename.
              \<not> str_in (u ''.pdf'') (str_lower L filename)
              \<and> \<not> str_in (u ''.docx'') (str_lower L filename) \<longrightarrow>
              filter (\<lambda>k. length k > 3)
                (split (replace (replace (str_lower L filename) (u ''.pdf'') [])
                          (u ''.docx'') []) (u ''_''))
              = spec_tokens L filename)"
proof -
  have log: "decisions (record_all L ld calls)
           = drop (length (decisions ld @ map decision_of calls) - 100)
               (decisions ld @ map decision_of calls)"
    using assms by (rule decisions_record_all)
  have len: "length (decisions (record_all L ld calls)) \<le> 100"
    unfolding log by simp
  have first: "decisions (record_all L ld calls) = map decision_of (tl calls)
      \<and> length (decisions (record_all L ld calls)) = 100"
    if "decisions ld = []" and "length calls = 101"
    unfolding log using that by (simp add: drop_Suc map_tl)
  have old: "\<forall>f k. indexed ld f k \<longrightarrow> indexed (record_all L ld calls) f k"
    by (simp add: indexed_record_all)
  have new: "\<forall>f k. indexed (record_all L ld calls) f k \<longleftrightarrow>
              indexed ld f k
              \<or> (\<exists>(now, filename, chosen_folder) \<in> set calls.
                    chosen_folder = f \<and> length k > 3
                    \<and> k \<in> set (split (replace (replace (str_lower L filename) (u ''.pdf'') [])
                                        (u ''.docx'') []) (u ''_'')))"
    using indexed_record_all [of L ld calls] unfolding filename_keywords_def by simp
  have agree: "\<forall>filename.
              \<not> str_in (u ''.pdf'') (str_lower L filename)
              \<and> \<not> str_in (u ''.docx'') (str_lower L filename) \<longrightarrow>
              filter (\<lambda>k. length k > 3)
                (split (replace (replace (str_lower L filename) (u ''.pdf'') [])
                          (u ''.docx'') []) (u ''_''))
              = spec_tokens L filename"
    using spec_tokens_agree [of L] unfolding filename_keywords_def by simp
  show ?thesis using log len first old new agree by blast
qed

theorem decision_log_capped_index_grows_witness:
  "decisions (record_all sample_lib \<lparr>decisions = [], folder_keywords = []\<rparr>
      ((sample_clock, u ''Rechnung_alt.pdf'', u ''Bank'')
        # replicate 100 (sample_clock, u ''brief.txt'', u ''Sonstiges'')))
     = replicate 100 (decision_of (sample_clock, u ''brief.txt'', u ''Sonstiges''))
   \<and> indexed (record_all sample_lib \<lparr>decisions = [], folder_keywords = []\<rparr>
      ((sample_clock, u ''Rechnung_alt.pdf'', u ''Bank'')
        # replicate 100 (sample_clock, u ''brief.txt'', u ''Sonstiges''))) (u ''Bank'') (u ''rechnung'')
   \<and> \<not> indexed (record_all sample_lib \<lparr>decisions = [], folder_keywords = []\<rparr>
      ((sample_clock, u ''Rechnung_alt.pdf'', u ''Bank'')
        # replicate 100 (sample_clock, u ''brief.txt'', u ''Sonstiges''))) (u ''Bank'') (u ''alt'')
   \<and> spec_tokens sample_lib (u ''brief.txt'') = [u ''brief.txt'']"
proof -
  have k: "split (replace (replace (str_lower sample_lib (u ''Rechnung_alt.pdf'')) (u ''.pdf'') [])
                   (u ''.docx'') []) (u ''_'') = [u ''rechnung'', u ''alt'']"
    by (simp add: sample_lib_def ascii_lower_def u_def split_def)
  have b: "split (replace (replace (str_lower sample_lib (u ''brief.txt'')) (u ''.pdf'') [])
                   (u ''.docx'') []) (u ''_'') = [u ''brief.txt'']"
    by (simp add: sample_lib_def ascii_lower_def u_def split_def)
  have p: "\<not> str_in (u ''.pdf'') (str_lower sample_lib (u ''brief.txt''))"
    "\<not> str_in (u ''.docx'') (str_lower sample_lib (u ''brief.txt''))"
    by (simp_all add: sample_lib_def ascii_lower_def u_def)
  have e: "\<not> indexed \<lparr>decisions = [], folder_keywords = []\<rparr> f k" for f k
    by (simp add: indexed_def)
  have n: "u ''Bank'' \<noteq> u ''Sonstiges''" "length (u ''rechnung'') > 3" "\<not> length (u ''alt'') > 3"
    "u ''alt'' \<noteq> u ''rechnung''" "length (u ''brief.txt'') > 3"
    by (simp_all add: u_def)
  have ne: "(sample_clock, u ''Rechnung_alt.pdf'', u ''Bank'')
        # replicate 100 (sample_clock, u ''brief.txt'', u ''Sonstiges'') \<noteq> []"
    by simp
  note t = decision_log_capped_index_grows
      [OF ne, of sample_lib "\<lparr>decisions = [], folder_keywords = []\<rparr>"]
  note log = t [THEN conjunct1]
  note idx = t [THEN conjunct2, THEN conjunct2, THEN conjunct2, THEN conjunct2,
      THEN conjunct1, rule_format]
  note agree = t [THEN conjunct2, THEN conjunct2, THEN conjunct2, THEN conjunct2,
      THEN conjunct2, rule_format]
  have 1: "decisions (record_all sample_lib \<lparr>decisions = [], folder_keywords = []\<rparr>
      ((sample_clock, u ''Rechnung_alt.pdf'', u ''Bank'')
        # replicate 100 (sample_clock, u ''brief.txt'', u ''Sonstiges'')))
     = replicate 100 (decision_of (sample_clock, u ''brief.txt'', u ''Sonstiges''))"
    unfolding log by simp
  have 2: "indexed (record_all sample_lib \<lparr>decisions = [], folder_keywords = []\<rparr>
      ((sample_clock, u ''Rechnung_alt.pdf'', u ''Bank'')
        # replicate 100 (sample_clock, u ''brief.txt'', u ''Sonstiges''))) (u ''Bank'') (u ''rechnung'')"
    unfolding idx using k n by simp
  have 3: "\<not> indexed (record_all sample_lib \<lparr>decisions = [], folder_keywords = []\<rparr>
      ((sample_clock, u ''Rechnung_alt.pdf'', u ''Bank'')
        # replicate 100 (sample_clock, u ''brief.txt'', u ''Sonstiges''))) (u ''Bank'') (u ''alt'')"
    unfolding idx using k b e n by simp
  have 4: "spec_tokens sample_lib (u ''brief.txt'') = [u ''brief.txt'']"
    using agree [of "u ''brief.txt''"] p b n by simp
  show ?thesis using 1 2 3 4 by blast
qed

text \<open>
  The tokens of claim C6 are the pieces of the lower-case name itself. The file name
  \<open>x_abc.pdf\<close> has the piece \<open>abc.pdf\<close>, which is longer than three characters, but the
  program deletes \<open>.pdf\<close> first and finds \<open>abc\<close>, which is too short: after the call for
  this file and 100 more calls its record is evicted and \<open>abc.pdf\<close> is not in the index of
  its folder, nor has it ever been.
\<close>

theorem claim_token_not_indexed:
  "u ''abc.pdf'' \<in> set (spec_tokens sample_lib (u ''x_abc.pdf''))
   \<and> decision_of (sample_clock, u ''x_abc.pdf'', u ''Bank'')
       \<notin> set (decisions (record_all sample_lib \<lparr>decisions = [], folder_keywords = []\<rparr>
            ((sample_clock, u ''x_abc.pdf'', u ''Bank'')
              # replicate 100 (sample_clock, u ''brief.txt'', u ''Sonstiges''))))
   \<and> \<not> indexed (record_all sample_lib \<lparr>decisions = [], folder_keywords = []\<rparr>
        [(sample_clock, u ''x_abc.pdf'', u ''Bank'')]) (u ''Bank'') (u ''abc.pdf'')
   \<and> \<not> indexed (record_all sample_lib \<lparr>decisions = [], folder_keywords = []\<rparr>
        ((sample_clock, u ''x_abc.pdf'', u ''Bank'')
          # replicate 100 (sample_clock, u ''brief.txt'', u ''Sonstiges''))) (u ''Bank'') (u ''abc.pdf'')"
proof -
  have s: "u ''abc.pdf'' \<in> set (spec_tokens sample_lib (u ''x_abc.pdf''))"
    by (simp add: spec_tokens_def sample_lib_def ascii_lower_def u_def split_def)
  have k: "filename_keywords sample_lib (u ''x_abc.pdf'') = [u ''x'', u ''abc'']"
    by (simp add: filename_keywords_def sample_lib_def ascii_lower_def u_def split_def)
  have n: "u ''Bank'' \<noteq> u ''Sonstiges''" "u ''abc.pdf'' \<noteq> u ''x''" "u ''abc.pdf'' \<noteq> u ''abc''"
    "u ''x_abc.pdf'' \<noteq> u ''brief.txt''"
    by (simp_all add: u_def)
  have d: "decisions (record_all sample_lib \<lparr>decisions = [], folder_keywords = []\<rparr>
            ((sample_clock, u ''x_abc.pdf'', u ''Bank'')
              # replicate 100 (sample_clock, u ''brief.txt'', u ''Sonstiges'')))
           = replicate 100 (decision_of (sample_clock, u ''brief.txt'', u ''Sonstiges''))"
    using decisions_record_all
      [of "(sample_clock, u ''x_abc.pdf'', u ''Bank'')
            # replicate 100 (sample_clock, u ''brief.txt'', u ''Sonstiges'')"
          sample_lib "\<lparr>decisions = [], folder_keywords = []\<rparr>"]
    by simp
  have e: "decision_of (sample_clock, u ''x_abc.pdf'', u ''Bank'')
       \<noteq> decision_of (sample_clock, u ''brief.txt'', u ''Sonstiges'')"
    using n by (simp add: decision_of_def)
  have i: "\<not> indexed (record_all sample_lib \<lparr>decisions = [], folder_keywords = []\<rparr> calls)
        (u ''Bank'') (u ''abc.pdf'')"
    if "set calls \<subseteq> {(sample_clock, u ''x_abc.pdf'', u ''Bank''),
                       (sample_clock, u ''brief.txt'', u ''Sonstiges'')}" for calls
    using that k n unfolding indexed_record_all by (auto simp add: indexed_def)
  show ?thesis
    using s d e i [of "[(sample_clock, u ''x_abc.pdf'', u ''Bank'')]"]
      i [of "(sample_clock, u ''x_abc.pdf'', u ''Bank'')
          # replicate 100 (sample_clock, u ''brief.txt'', u ''Sonstiges'')"]
    by simp
qed

subsection \<open>The quality gate of the minimal organizer\<close>

declare fill_minimal.simps [simp del]

lemma fl_reduced_values:
  "fl (4/5) = 3602879701896397/4503599627370496"
  "fl (3/5) = 5404319552844595/9007199254740992"
  "fl (1/2) = 1/2"
  "fl (1/20) = 3602879701896397/72057594037927936"
  "fl (5404319552844595/9007199254740992) = 5404319552844595/9007199254740992"
  "fl (1/5) = 3602879701896397/18014398509481984"
  "fl (2/5) = 3602879701896397/9007199254740992"
  "fl (3602879701896397/9007199254740992) = 3602879701896397/9007199254740992"
  by code_simp+

lemma fill_minimal_old:
  "\<forall>s \<in> set ss. \<not> c_is_new s \<Longrightarrow> \<forall>s \<in> set (fill_minimal tf ss). \<not> c_is_new s"
proof (induction tf ss rule: fill_minimal.induct)
  case (1 tf ss)
  show ?case
  proof (cases "length ss < 3")
    case False
    then show ?thesis using "1.prems" by (subst fill_minimal.simps) simp
  next
    case short: True
    show ?thesis
    proof (cases "filter (\<lambda>f. f \<notin> set (map c_folder ss)) tf")
      case Nil
      then show ?thesis using "1.prems" short by (subst fill_minimal.simps) simp
    next
      case (Cons r rs)
      show ?thesis
      proof (cases "u ''Sonstiges'' \<in> set (r # rs)")
        case True
        have "\<forall>s \<in> set (fill_minimal tf
            (ss @ [chosen (u ''Sonstiges'') (u ''Standard-Fallback'') (Fin (fl (1/10)))])). \<not> c_is_new s"
          using "1.IH"(1) [OF short Cons True] "1.prems" by simp
        then show ?thesis using short Cons True by (subst fill_minimal.simps) simp
      next
        case False
        have "\<forall>s \<in> set (fill_minimal tf
            (ss @ [chosen r (u ''Automatische Zuordnung'') (Fin (fl (1/10)))])). \<not> c_is_new s"
          using "1.IH"(2) [OF short Cons False] "1.prems" by simp
        then show ?thesis using short Cons False by (subst fill_minimal.simps) simp
      qed
    qed
  qed
qed

lemma fallback_candidates_old:
  "s \<in> set (fallback_candidates L tf t) \<Longrightarrow> \<not> c_is_new s"
proof -
  have "\<forall>s \<in> set (fill_minimal tf
      (map (\<lambda>(f, score).
              chosen f (u ''Schl'' @ [252] @ u ''sselw'' @ [246] @ u ''rter erkannt'')
                (Fin (min (fl (8/10)) (fl (of_nat score * fl (3/10))))))
         (take 2 (sort_desc (\<lambda>(f, score). of_nat score)
            (keyword_scores minimal_keywords tf (str_lower L t)))))). \<not> c_is_new s"
    by (rule fill_minimal_old) auto
  then show "s \<in> set (fallback_candidates L tf t) \<Longrightarrow> \<not> c_is_new s"
    by (simp add: fallback_candidates_def Let_def)
qed

lemma llm_item_old:
  "llm_item L tf x = Inr ys \<Longrightarrow> y \<in> set ys \<Longrightarrow> \<not> c_is_new y \<and> c_folder y \<in> set tf"
  by (auto simp add: llm_item_def json_in_def py_str_def
      split: json.splits option.splits if_splits sum.splits)

lemma llm_valid_old:
  assumes "llm_valid L tf outcome = Inr valid" and "s \<in> set valid"
  shows "\<not> c_is_new s \<and> c_folder s \<in> set tf"
proof -
  obtain items where "collect (llm_item L tf) items = Inr valid"
    using assms(1) by (auto simp add: llm_valid_def split: sum.splits option.splits)
  then show ?thesis
    using collect_set [of "llm_item L tf" "\<lambda>y. \<not> c_is_new y \<and> c_folder y \<in> set tf" items valid s]
      llm_item_old [of L tf] assms(2) by blast
qed

text \<open>
  Claim C7. In the minimal organizer, when the validated answer of the model has fewer than
  two suggestions with confidence at least 0.6, the result is that of the new-folder
  proposer and not the validated list; when the keyword classifier has fewer than two
  suggestions with confidence at least 0.5, its result is that of the new-folder proposer
  as well. Every entry of the proposer's result is flagged \<open>is_new\<close>, and no entry of the
  validated list or of the classifier's list is, so none of those is returned. The
  comparisons are those of doubles with the doubles nearest to 0.6 and 0.5. When two or
  more suggestions reach the threshold the validated list is returned, or the first three
  of the classifier; when the call of the model or the validation raises, the result is
  that of the keyword classifier behind its own gate.
\<close>

theorem quality_gate:
  "(llm_valid L target_folders outcome = Inr valid
      \<and> length (filter (\<lambda>s. f_ge (c_confidence s) (Fin (fl (6/10)))) valid) < 2 \<longrightarrow>
        get_folder_suggestions_llm L target_folders text_content outcome creation_outcome
          = get_folder_creation_suggestions L text_content creation_outcome)
   \<and> (length (filter (\<lambda>s. f_ge (c_confidence s) (Fin (fl (5/10))))
                 (fallback_candidates L target_folders text_content)) < 2 \<longrightarrow>
        get_fallback_suggestions L target_folders text_content creation_outcome
          = get_folder_creation_suggestions L text_content creation_outcome)
   \<and> (\<forall>s \<in> set (get_folder_creation_suggestions L text_content creation_outcome). c_is_new s)
   \<and> (llm_valid L target_folders outcome = Inr valid \<longrightarrow>
        (\<forall>s \<in> set valid. \<not> c_is_new s \<and> c_folder s \<in> set target_folders))
   \<and> (\<forall>s \<in> set (fallback_candidates L target_folders text_content). \<not> c_is_new s)
   \<and> (llm_valid L target_folders outcome = Inr valid
      \<and> 2 \<le> length (filter (\<lambda>s. f_ge (c_confidence s) (Fin (fl (6/10)))) valid) \<longrightarrow>
        get_folder_suggestions_llm L target_folders text_content outcome creation_outcome = valid)
   \<and> (2 \<le> length (filter (\<lambda>s. f_ge (c_confidence s) (Fin (fl (5/10))))
                 (fallback_candidates L target_folders text_content)) \<longrightarrow>
        get_fallback_suggestions L target_folders text_content creation_outcome
          = take 3 (fallback_candidates L target_folders text_content))
   \<and> (\<forall>e. llm_valid L target_folders outcome = Inl e \<longrightarrow>
        get_folder_suggestions_llm L target_folders text_content outcome creation_outcome
          = get_fallback_suggestions L target_folders text_content creation_outcome)
   \<and> fl (6/10) = 5404319552844595 / 9007199254740992 \<and> fl (5/10) = 1 / 2"
proof -
  have 1: "llm_valid L target_folders outcome = Inr valid
      \<and> length (filter (\<lambda>s. f_ge (c_confidence s) (Fin (fl (6/10)))) valid) < 2 \<longrightarrow>
        get_folder_suggestions_llm L target_folders text_content outcome creation_outcome
          = get_folder_creation_suggestions L text_content creation_outcome"
    by (simp add: get_folder_suggestions_llm_def Let_def)
  have 2: "length (filter (\<lambda>s. f_ge (c_confidence s) (Fin (fl (5/10))))
                 (fallback_candidates L target_folders text_content)) < 2 \<longrightarrow>
        get_fallback_suggestions L target_folders text_content creation_outcome
          = get_folder_creation_suggestions L text_content creation_outcome"
    by (simp add: get_fallback_suggestions_def Let_def)
  have 3: "\<forall>s \<in> set (get_folder_creation_suggestions L text_content creation_outcome). c_is_new s"
    using creation_suggestions_new [of _ L text_content creation_outcome] by blast
  have 4: "llm_valid L target_folders outcome = Inr valid \<longrightarrow>
        (\<forall>s \<in> set valid. \<not> c_is_new s \<and> c_folder s \<in> set target_folders)"
    using llm_valid_old [of L target_folders outcome valid] by blast
  have 5: "\<forall>s \<in> set (fallback_candidates L target_folders text_content). \<not> c_is_new s"
    using fallback_candidates_old [of _ L target_folders text_content] by blast
  have 6: "llm_valid L target_folders outcome = Inr valid
      \<and> 2 \<le> length (filter (\<lambda>s. f_ge (c_confidence s) (Fin (fl (6/10)))) valid) \<longrightarrow>
        get_folder_suggestions_llm L target_folders text_content outcome creation_outcome = valid"
    by (simp add: get_folder_suggestions_llm_def Let_def)
  have 7: "2 \<le> length (filter (\<lambda>s. f_ge (c_confidence s) (Fin (fl (5/10))))
                 (fallback_candidates L target_folders text_content)) \<longrightarrow>
        get_fallback_suggestions L target_folders text_content creation_outcome
          = take 3 (fallback_candidates L target_folders text_content)"
    by (simp add: get_fallback_suggestions_def Let_def)
  have 8: "\<forall>e. llm_valid L target_folders outcome = Inl e \<longrightarrow>
        get_folder_suggestions_llm L target_folders text_content outcome creation_outcome
          = get_fallback_suggestions L target_folders text_content creation_outcome"
    by (simp add: get_folder_suggestions_llm_def)
  have 9: "fl (6/10) = 5404319552844595 / 9007199254740992" "fl (5/10) = 1 / 2"
    by (rule fl_values)+
  show ?thesis
    using 1 2 3 4 5 6 7 8 9 by blast
qed

theorem quality_gate_witness:
  "get_folder_suggestions_llm sample_lib [u ''Auto'', u ''Bank'', u ''Sonstiges'']
       (u ''Konto bei der Bank'') two_bank_reply PostRaised
     = get_folder_creation_suggestions sample_lib (u ''Konto bei der Bank'') PostRaised
   \<and> get_fallback_suggestions sample_lib [u ''Auto'', u ''Bank'', u ''Sonstiges'']
       (u ''Konto bei der Bank'') PostRaised
     = get_folder_creation_suggestions sample_lib (u ''Konto bei der Bank'') PostRaised
   \<and> list_all c_is_new (get_folder_creation_suggestions sample_lib (u ''Konto bei der Bank'') PostRaised)
   \<and> get_folder_suggestions_llm sample_lib [u ''Auto'', u ''Bank'', u ''Sonstiges'']
       (u ''Konto Bank Auto KFZ'') bank_auto_reply PostRaised
     = [chosen (u ''Bank'') (u ''r'') (Fin (fl (9/10))), chosen (u ''Auto'') (u ''r'') (Fin (fl (7/10)))]
   \<and> get_fallback_suggestions sample_lib [u ''Auto'', u ''Bank'', u ''Sonstiges'']
       (u ''Konto Bank Auto KFZ'') PostRaised
     = [chosen (u ''Bank'') (u ''Schl'' @ [252] @ u ''sselw'' @ [246] @ u ''rter erkannt'') (Fin (fl (6/10))),
        chosen (u ''Auto'') (u ''Schl'' @ [252] @ u ''sselw'' @ [246] @ u ''rter erkannt'') (Fin (fl (6/10))),
        chosen (u ''Sonstiges'') (u ''Standard-Fallback'') (Fin (fl (1/10)))]
   \<and> get_folder_suggestions_llm sample_lib [u ''Auto'', u ''Bank'', u ''Sonstiges'']
       (u ''Konto Bank Auto KFZ'') PostRaised PostRaised
     = get_fallback_suggestions sample_lib [u ''Auto'', u ''Bank'', u ''Sonstiges'']
         (u ''Konto Bank Auto KFZ'') PostRaised"
proof -
  have v1: "llm_valid sample_lib [u ''Auto'', u ''Bank'', u ''Sonstiges''] two_bank_reply
     = Inr [chosen (u ''Bank'') (u ''r'') (Fin (fl (9/10))),
            chosen (u ''Bank'') (u ''r'') (Fin (fl (5/100)))]"
    by (simp add: llm_valid_def two_bank_reply_def urlopen_text_def response_text_def strip_def
        is_space_def strip_fence_def backticks_def twice_bank_text_def u_def sample_lib_def
        sample_loads_def twice_bank_def unknown_folder_text_def first_three_def llm_item_def
        json_in_def py_float_def dict_get_def py_str_def)
  have v2: "llm_valid sample_lib [u ''Auto'', u ''Bank'', u ''Sonstiges''] bank_auto_reply
     = Inr [chosen (u ''Bank'') (u ''r'') (Fin (fl (9/10))),
            chosen (u ''Auto'') (u ''r'') (Fin (fl (7/10)))]"
    by (simp add: llm_valid_def bank_auto_reply_def urlopen_text_def response_text_def strip_def
        is_space_def strip_fence_def backticks_def twice_bank_text_def bank_auto_text_def u_def
        sample_lib_def sample_loads_def bank_auto_def unknown_folder_text_def first_three_def
        llm_item_def json_in_def py_float_def dict_get_def py_str_def)
  have v3: "llm_valid sample_lib [u ''Auto'', u ''Bank'', u ''Sonstiges''] PostRaised
     = Inl RequestException"
    by (simp add: llm_valid_def urlopen_text_def)
  have f1: "fallback_candidates sample_lib [u ''Auto'', u ''Bank'', u ''Sonstiges'']
       (u ''Konto bei der Bank'')
     = [chosen (u ''Bank'') (u ''Schl'' @ [252] @ u ''sselw'' @ [246] @ u ''rter erkannt'') (Fin (fl (6/10))),
        chosen (u ''Sonstiges'') (u ''Standard-Fallback'') (Fin (fl (1/10))),
        chosen (u ''Auto'') (u ''Automatische Zuordnung'') (Fin (fl (1/10)))]"
    by (simp add: fallback_candidates_def Let_def keyword_scores_def minimal_keywords_def
        sort_desc_def sample_lib_def ascii_lower_def u_def fill_minimal.simps fl_values
        fl_reduced_values)
  have f2: "fallback_candidates sample_lib [u ''Auto'', u ''Bank'', u ''Sonstiges'']
       (u ''Konto Bank Auto KFZ'')
     = [chosen (u ''Bank'') (u ''Schl'' @ [252] @ u ''sselw'' @ [246] @ u ''rter erkannt'') (Fin (fl (6/10))),
        chosen (u ''Auto'') (u ''Schl'' @ [252] @ u ''sselw'' @ [246] @ u ''rter erkannt'') (Fin (fl (6/10))),
        chosen (u ''Sonstiges'') (u ''Standard-Fallback'') (Fin (fl (1/10)))]"
    by (simp add: fallback_candidates_def Let_def keyword_scores_def minimal_keywords_def
        sort_desc_def sample_lib_def ascii_lower_def u_def fill_minimal.simps fl_values
        fl_reduced_values)
  note a = quality_gate [of sample_lib "[u ''Auto'', u ''Bank'', u ''Sonstiges'']" two_bank_reply
      "[chosen (u ''Bank'') (u ''r'') (Fin (fl (9/10))),
        chosen (u ''Bank'') (u ''r'') (Fin (fl (5/100)))]"
      "u ''Konto bei der Bank''" PostRaised]
  note b = quality_gate [of sample_lib "[u ''Auto'', u ''Bank'', u ''Sonstiges'']" bank_auto_reply
      "[chosen (u ''Bank'') (u ''r'') (Fin (fl (9/10))),
        chosen (u ''Auto'') (u ''r'') (Fin (fl (7/10)))]"
      "u ''Konto Bank Auto KFZ''" PostRaised]
  note c = quality_gate [of sample_lib "[u ''Auto'', u ''Bank'', u ''Sonstiges'']" PostRaised
      "[]" "u ''Konto Bank Auto KFZ''" PostRaised]
  have 1: "get_folder_suggestions_llm sample_lib [u ''Auto'', u ''Bank'', u ''Sonstiges'']
       (u ''Konto bei der Bank'') two_bank_reply PostRaised
     = get_folder_creation_suggestions sample_lib (u ''Konto bei der Bank'') PostRaised"
    using a [THEN conjunct1] unfolding v1 by (simp add: fl_values fl_reduced_values)
  have 2: "get_fallback_suggestions sample_lib [u ''Auto'', u ''Bank'', u ''Sonstiges'']
       (u ''Konto bei der Bank'') PostRaised
     = get_folder_creation_suggestions sample_lib (u ''Konto bei der Bank'') PostRaised"
    using a [THEN conjunct2, THEN conjunct1] unfolding f1
    by (simp add: fl_values fl_reduced_values)
  have 3: "list_all c_is_new
       (get_folder_creation_suggestions sample_lib (u ''Konto bei der Bank'') PostRaised)"
    using a [THEN conjunct2, THEN conjunct2, THEN conjunct1] by (simp add: list_all_iff)
  have 4: "get_folder_suggestions_llm sample_lib [u ''Auto'', u ''Bank'', u ''Sonstiges'']
       (u ''Konto Bank Auto KFZ'') bank_auto_reply PostRaised
     = [chosen (u ''Bank'') (u ''r'') (Fin (fl (9/10))), chosen (u ''Auto'') (u ''r'') (Fin (fl (7/10)))]"
    using b [THEN conjunct2, THEN conjunct2, THEN conjunct2, THEN conjunct2, THEN conjunct2,
        THEN conjunct1]
    unfolding v2 by (simp add: fl_values fl_reduced_values)
  have 5: "get_fallback_suggestions sample_lib [u ''Auto'', u ''Bank'', u ''Sonstiges'']
       (u ''Konto Bank Auto KFZ'') PostRaised
     = [chosen (u ''Bank'') (u ''Schl'' @ [252] @ u ''sselw'' @ [246] @ u ''rter erkannt'') (Fin (fl (6/10))),
        chosen (u ''Auto'') (u ''Schl'' @ [252] @ u ''sselw'' @ [246] @ u ''rter erkannt'') (Fin (fl (6/10))),
        chosen (u ''Sonstiges'') (u ''Standard-Fallback'') (Fin (fl (1/10)))]"
    using b [THEN conjunct2, THEN conjunct2, THEN conjunct2, THEN conjunct2, THEN conjunct2,
        THEN conjunct2, THEN conjunct1]
    unfolding f2 by (simp add: fl_values fl_reduced_values)
  have 6: "get_folder_suggestions_llm sample_lib [u ''Auto'', u ''Bank'', u ''Sonstiges'']
       (u ''Konto Bank Auto KFZ'') PostRaised PostRaised
     = get_fallback_suggestions sample_lib [u ''Auto'', u ''Bank'', u ''Sonstiges'']
         (u ''Konto Bank Auto KFZ'') PostRaised"
    using c [THEN conjunct2, THEN conjunct2, THEN conjunct2, THEN conjunct2, THEN conjunct2,
        THEN conjunct2, THEN conjunct2, THEN conjunct1]
    unfolding v3 by simp
  show ?thesis using 1 2 3 4 5 6 by blast
qed

subsection \<open>The loops that fill up to three suggestions\<close>











subsection \<open>The validated items and their ranking\<close>

declare fill_parsed.simps [simp del]
declare fill_fallback.simps [simp del]
















subsection \<open>The keyword classifier\<close>











subsection \<open>The suggestions of the first implementation\<close>










subsection \<open>Answers of the model that are not as asked\<close>













end
